theory Spec2Isabelle
  imports Complex_Main "HOL-Library.Sublist"
begin

section \<open>Domain model (types.ts)\<close>

text \<open>
  Every JavaScript \<open>number\<close> of the game state is modelled as a \<^typ>\<open>real\<close>: the
  arithmetic of the formulas is the exact one, without the rounding of IEEE doubles and
  without \<open>NaN\<close> or infinities. \<open>Math.floor\<close> is \<^const>\<open>floor\<close>, read back as a real.
  Counters that only ever hold small integers (the week of the month, array lengths)
  are integers or naturals; the timestamp of a post is a reading of the clock, a natural
  number.

  The in-game date is created as \<open>new Date(2025, 0, 1)\<close> and only ever changed by
  \<open>setMonth(getMonth() + 1)\<close>, so its day of the month is always 1 and a date is a
  year and a month index (0 to 11).
\<close>

datatype Genre = POP | HIPHOP | ROCK | RNB | ELECTRONIC | COUNTRY | JAZZ | INDIE

datatype SocialPlatform = Instagram | TikTok | YouTube | Spotify | AppleMusic

record Date =
  fullYear :: int
  monthIndex :: nat

record PostComment =
  comment_user :: string
  comment_text :: string

record Impact =
  impact_fans :: real
  impact_fame :: real
  streamsBoost :: "real option"

record SocialPost =
  post_id :: string
  post_platform :: SocialPlatform
  content :: string
  post_type :: string
  likes :: real
  comments :: "PostComment list"
  timestamp :: nat
  impact :: Impact
  videoTitle :: "string option"
  videoDescription :: "string option"
  thumbnailUrl :: "string option"

record SponsoredOffer =
  offer_id :: string
  brand :: string
  payout :: real
  requirement :: string
  charismaPenalty :: real

record Label =
  label_id :: string
  label_name :: string
  prestige :: real
  fameRequirement :: real
  signingBonus :: real
  revenueSplit :: real
  description :: string
  logo :: string

record Song =
  song_id :: string
  title :: string
  song_genre :: Genre
  quality :: real
  releaseDate :: Date
  streams :: real
  revenue :: real
  lyrics :: "string option"
  chartPosition :: "real option"
  featuredArtist :: "string option"
  isMusicVideo :: "bool option"

record Award =
  award_id :: string
  award_year :: int
  category :: string
  reason :: string

record Skills =
  songwriting :: real
  vocals :: real
  production :: real
  charisma :: real

record Player =
  name :: string
  stageName :: string
  genre :: Genre
  fans :: real
  fame :: real
  money :: real
  followers :: "SocialPlatform \<Rightarrow> real"
  skills :: Skills
  labelId :: "string option"

record HistoryPoint =
  hist_month :: nat
  hist_fans :: real

record GameState =
  player :: Player
  currentDate :: Date
  currentWeek :: int
  songs :: "Song list"
  unreleasedSongs :: "Song list"
  awards :: "Award list"
  charts :: "unit list"
  news :: "string list"
  socialPosts :: "SocialPost list"
  trendingTopics :: "string list"
  activeOffers :: "SponsoredOffer list"
  history :: "HistoryPoint list"

text \<open>The entry of \<open>constants.ts\<close> that the formulas read of a featured artist.\<close>

record RealArtist =
  artist_name :: string
  artist_fame :: real
  artist_cost :: real

subsection \<open>JavaScript helpers\<close>

text \<open>\<open>date.setMonth(date.getMonth() + 1)\<close> on a date whose day is 1.\<close>

definition setNextMonth :: "Date \<Rightarrow> Date" where
  "setNextMonth d =
     \<lparr>fullYear = fullYear d + int ((monthIndex d + 1) div 12),
      monthIndex = (monthIndex d + 1) mod 12\<rparr>"

text \<open>Decimal rendering of a year inside a template string.\<close>

fun digits :: "nat \<Rightarrow> string" where
  "digits n =
     (if n < 10 then [''0123456789'' ! n]
      else digits (n div 10) @ [''0123456789'' ! (n mod 10)])"

declare digits.simps [simp del]

definition showInt :: "int \<Rightarrow> string" where
  "showInt i = (if i < 0 then ''-'' @ digits (nat (- i)) else digits (nat i))"

definition platformName :: "SocialPlatform \<Rightarrow> string" where
  "platformName p =
     (case p of Instagram \<Rightarrow> ''Instagram'' | TikTok \<Rightarrow> ''TikTok'' | YouTube \<Rightarrow> ''YouTube''
      | Spotify \<Rightarrow> ''Spotify'' | AppleMusic \<Rightarrow> ''AppleMusic'')"

text \<open>\<open>a.includes(b)\<close> on strings.\<close>

definition includes_str :: "string \<Rightarrow> string \<Rightarrow> bool" where
  "includes_str a b = sublist b a"

section \<open>The narrative oracle (services/geminiService.ts)\<close>

text \<open>
  Each call of the generative service is a function of the service's reply, which is an
  input of the model: \<open>None\<close> stands for a call that the source answers with its fixed
  fallback (a failed call, or an empty reply where the source treats it so). Characters
  outside ASCII are written as their UTF-8 bytes.
\<close>

definition heart :: string where
  "heart = [CHR 0xE2, CHR 0x9D, CHR 0xA4, CHR 0xEF, CHR 0xB8, CHR 0x8F]"

definition fire :: string where
  "fire = [CHR 0xF0, CHR 0x9F, CHR 0x94, CHR 0xA5]"

definition clapper :: string where
  "clapper = [CHR 0xF0, CHR 0x9F, CHR 0x8E, CHR 0xAC]"

definition checkMark :: string where
  "checkMark = [CHR 0xE2, CHR 0x9C, CHR 0x85]"

definition dquote :: string where
  "dquote = [CHR 0x22]"

definition generateTrendingTopics :: "string list option \<Rightarrow> string list" where
  "generateTrendingTopics reply =
     (case reply of
        Some topics \<Rightarrow> topics
      | None \<Rightarrow> [''#MusicVibes'', ''#Stardom'', ''#NewArtist'', ''#ViralBeat'', ''#StudioLife''])"

record OfferReply =
  reply_brand :: string
  reply_payout :: real
  reply_requirement :: string
  reply_charismaPenalty :: real

definition fallbackOffer :: SponsoredOffer where
  "fallbackOffer =
     \<lparr>offer_id = ''fallback-offer'', brand = ''GlowWater'', payout = 5000,
      requirement = ''Post a photo drinking GlowWater with the tag #StayGlowing'',
      charismaPenalty = 3\<rparr>"

definition generateSponsoredOffer :: "OfferReply option \<Rightarrow> string \<Rightarrow> SponsoredOffer" where
  "generateSponsoredOffer reply randomId =
     (case reply of
        Some r \<Rightarrow>
          \<lparr>offer_id = randomId, brand = reply_brand r, payout = reply_payout r,
           requirement = reply_requirement r, charismaPenalty = reply_charismaPenalty r\<rparr>
      | None \<Rightarrow> fallbackOffer)"

record ImpactReply =
  fanGain :: real
  reception :: string

definition calculateSongImpact :: "ImpactReply option \<Rightarrow> real \<Rightarrow> real \<Rightarrow> ImpactReply" where
  "calculateSongImpact reply quality' currentFans =
     (case reply of
        Some r \<Rightarrow> r
      | None \<Rightarrow>
          \<lparr>fanGain = real_of_int \<lfloor>(quality' / 100) * (currentFans * 0.2) + 500\<rfloor>,
           reception = ''The track is getting steady rotation on indie playlists.''\<rparr>)"

definition generateIndustryNews :: "string option \<Rightarrow> string \<Rightarrow> string" where
  "generateIndustryNews reply playerName =
     (case reply of
        Some headline \<Rightarrow> (if headline = [] then playerName @ '' is making waves in the industry!''
                          else headline)
      | None \<Rightarrow> playerName @ '' is making waves in the industry!'')"

definition generateThumbnail :: "string option \<Rightarrow> string option" where
  "generateThumbnail reply =
     (case reply of
        Some inlineData \<Rightarrow> Some (''data:image/png;base64,'' @ inlineData)
      | None \<Rightarrow> None)"

definition generateSocialEngagement :: "PostComment list option \<Rightarrow> PostComment list" where
  "generateSocialEngagement reply =
     (case reply of
        Some cs \<Rightarrow> cs
      | None \<Rightarrow>
          [\<lparr>comment_user = ''fan_zone'', comment_text = ''We love you! '' @ heart\<rparr>,
           \<lparr>comment_user = ''music_critic'', comment_text = ''Interesting choice...''\<rparr>,
           \<lparr>comment_user = ''stan_account'', comment_text = ''STREAM THE NEW SINGLE!''\<rparr>])"

section \<open>Economic formulas and the time-advancement engine (App.tsx)\<close>

text \<open>
  From the \<open>App.tsx\<close> of \<open>src/unnamed/part_001\<close>. Notifications, modal dialogs, busy flags
  and the other interface state are not part of the game state and are left out.
\<close>

definition getStreamRate :: "real \<Rightarrow> real" where
  "getStreamRate fans' =
     (let baseRate = 750 / 1500 in
      if fans' < 1000000 then baseRate
      else (let bonus = (fans' - 1000000) * 0.0000001 in baseRate + bonus))"

definition runAwardsSeason :: "GameState \<Rightarrow> string \<Rightarrow> string \<Rightarrow> Award list" where
  "runAwardsSeason state aoyRandom botyRandom =
     (let year = fullYear (currentDate state);
          wonAwards =
            (if fans (player state) > 1000000 \<and> length (songs state) \<ge> 3 then
               (case sort_key (\<lambda>s. - quality s) (songs state) of
                  [] \<Rightarrow> []
                | bestSong # _ \<Rightarrow>
                    (if quality bestSong > 85 then
                       [\<lparr>award_id = ''aoy-'' @ showInt year @ ''-'' @ aoyRandom,
                         award_year = year,
                         category = ''Album of the Year'',
                         reason = ''Masterpiece of production and songwriting.''\<rparr>]
                     else []))
             else [])
      in if fame (player state) > 5000000 then
           wonAwards @
             [\<lparr>award_id = ''boty-'' @ showInt year @ ''-'' @ botyRandom,
               award_year = year,
               category = ''Best Artist'',
               reason = ''Global impact and cultural domination.''\<rparr>]
         else wonAwards)"

text \<open>
  What one call of \<open>advanceTime\<close> reads from outside the game state: the draws of
  \<open>Math.random()\<close> (one per released song, one for the sponsorship gate, the random
  parts of identifiers) and the replies of the oracle.
\<close>

record AdvanceEnv =
  streamRoll :: "nat \<Rightarrow> real"
  trendingReply :: "string list option"
  offerRoll :: real
  offerReply :: "OfferReply option"
  offerRandomId :: string
  aoyRandom :: string
  botyRandom :: string

text \<open>The body of the \<open>map\<close> over the released songs.\<close>

definition finalWeeklyGain :: "GameState \<Rightarrow> Song \<Rightarrow> real \<Rightarrow> real" where
  "finalWeeklyGain prev song random =
     (let qualityFactor = (quality song / 100) ^ 2;
          audienceFactor = fans (player prev) * 0.05 + fame (player prev) * 0.01;
          weeklyGain = real_of_int \<lfloor>audienceFactor * qualityFactor * (0.8 + random * 0.4)\<rfloor>
      in max 1 weeklyGain)"

definition streamedSong :: "GameState \<Rightarrow> real \<Rightarrow> Song \<Rightarrow> real \<Rightarrow> Song" where
  "streamedSong prev currentRate song random =
     (let newTotalStreams = streams song + finalWeeklyGain prev song random
      in song\<lparr>streams := newTotalStreams, revenue := newTotalStreams * currentRate\<rparr>)"

definition updatedSongs :: "GameState \<Rightarrow> AdvanceEnv \<Rightarrow> Song list" where
  "updatedSongs prev env =
     map (\<lambda>(i, song). streamedSong prev (getStreamRate (fans (player prev))) song (streamRoll env i))
       (enumerate 0 (songs prev))"

text \<open>The \<open>reduce\<close> of the settlement: stream deltas against the state before the call.\<close>

definition monthlyActivity :: "GameState \<Rightarrow> Song list \<Rightarrow> real" where
  "monthlyActivity prev updated =
     foldl (\<lambda>acc song.
        (let oldSong = find (\<lambda>s. song_id s = song_id song) (songs prev);
             delta = streams song - (case oldSong of None \<Rightarrow> 0 | Some s \<Rightarrow> streams s)
         in acc + delta)) 0 updated"

text \<open>
  \<open>(label?.revenueSplit || 100) / 100\<close>, over the label catalogue \<open>LABELS\<close> of
  \<open>constants.ts\<close>, which is a parameter: a label that is not found and a split of 0
  both give the full share.
\<close>

definition share :: "Label list \<Rightarrow> GameState \<Rightarrow> real" where
  "share LABELS prev =
     (let label = find (\<lambda>l. Some (label_id l) = labelId (player prev)) LABELS
      in (case label of
            None \<Rightarrow> 100
          | Some l \<Rightarrow> (if revenueSplit l = 0 then 100 else revenueSplit l)) / 100)"

definition monthlyRoyalties :: "Label list \<Rightarrow> GameState \<Rightarrow> AdvanceEnv \<Rightarrow> real" where
  "monthlyRoyalties LABELS prev env =
     monthlyActivity prev (updatedSongs prev env) * getStreamRate (fans (player prev))
       * share LABELS prev"

definition advanceTime :: "Label list \<Rightarrow> GameState \<Rightarrow> AdvanceEnv \<Rightarrow> GameState" where
  "advanceTime LABELS prev env =
     (let nextWeek = currentWeek prev + 1;
          nextDate = currentDate prev;
          newPlayerState = player prev
      in if nextWeek > 4 then
           (let oldMonth = monthIndex nextDate;
                newTrending = generateTrendingTopics (trendingReply env);
                newOffers =
                  (if offerRoll env < 0.6 then
                     take 3 (generateSponsoredOffer (offerReply env) (offerRandomId env)
                             # activeOffers prev)
                   else activeOffers prev);
                wonAwards =
                  (if oldMonth = 11 then runAwardsSeason prev (aoyRandom env) (botyRandom env)
                   else []);
                newAwards = awards prev @ wonAwards;
                newNews =
                  foldl (\<lambda>nws a.
                      (''WINNER: '' @ stageName (player prev) @ '' wins '' @ category a @ ''!'') # nws)
                    (news prev) wonAwards;
                newPlayerState = newPlayerState
                  \<lparr>fame := fame newPlayerState + real (length wonAwards) * 500000,
                   money := money newPlayerState + real (length wonAwards) * 100000\<rparr>;
                newPlayerState = newPlayerState
                  \<lparr>money := money newPlayerState + monthlyRoyalties LABELS prev env,
                   fans := fans newPlayerState + real_of_int \<lfloor>fans (player prev) * 0.05\<rfloor>,
                   followers := (\<lambda>p. case p of
                       Instagram \<Rightarrow> real_of_int \<lfloor>followers (player prev) Instagram * 1.05\<rfloor>
                     | TikTok \<Rightarrow> real_of_int \<lfloor>followers (player prev) TikTok * 1.08\<rfloor>
                     | YouTube \<Rightarrow> real_of_int \<lfloor>followers (player prev) YouTube * 1.03\<rfloor>
                     | Spotify \<Rightarrow> real_of_int \<lfloor>followers (player prev) Spotify * 1.04\<rfloor>
                     | AppleMusic \<Rightarrow> real_of_int \<lfloor>followers (player prev) AppleMusic * 1.02\<rfloor>)\<rparr>;
                newHistory = history prev @
                  [\<lparr>hist_month = length (history prev), hist_fans = fans newPlayerState\<rparr>]
            in prev\<lparr>currentDate := setNextMonth nextDate, currentWeek := 1,
                    player := newPlayerState, songs := updatedSongs prev env,
                    awards := newAwards, news := take 15 newNews, history := newHistory,
                    trendingTopics := newTrending, activeOffers := newOffers\<rparr>)
         else
           (let newPlayerState = newPlayerState
                  \<lparr>fans := fans newPlayerState + real_of_int \<lfloor>fans (player prev) * 0.01\<rfloor>,
                   followers := (followers (player prev))
                     (Instagram := real_of_int \<lfloor>followers (player prev) Instagram * 1.01\<rfloor>,
                      TikTok := real_of_int \<lfloor>followers (player prev) TikTok * 1.02\<rfloor>)\<rparr>
            in prev\<lparr>currentDate := nextDate, currentWeek := nextWeek,
                    player := newPlayerState, songs := updatedSongs prev env,
                    awards := awards prev, news := take 15 (news prev), history := history prev,
                    trendingTopics := trendingTopics prev, activeOffers := activeOffers prev\<rparr>))"

text \<open>The state that \<open>handleStartGame\<close> installs: a fresh career.\<close>

definition handleStartGame :: "string \<Rightarrow> string \<Rightarrow> Genre \<Rightarrow> GameState option" where
  "handleStartGame name' stageName' genre' =
     (if name' = [] \<or> stageName' = [] then None
      else Some
        \<lparr>player =
           \<lparr>name = name', stageName = stageName', genre = genre', fans = 100, fame = 0,
            money = 5000,
            followers = (\<lambda>p. case p of Instagram \<Rightarrow> 50 | TikTok \<Rightarrow> 75 | YouTube \<Rightarrow> 20
                         | Spotify \<Rightarrow> 10 | AppleMusic \<Rightarrow> 5),
            skills = \<lparr>songwriting = 20, vocals = 30, production = 10, charisma = 40\<rparr>,
            labelId = Some ''indie_self''\<rparr>,
         currentDate = \<lparr>fullYear = 2025, monthIndex = 0\<rparr>,
         currentWeek = 0,
         songs = [], unreleasedSongs = [], awards = [], charts = [],
         news = [''Fresh start. The path to Gold begins today.''],
         socialPosts = [],
         trendingTopics = [''#MusicVibes'', ''#Stardom'', ''#NewArtist''],
         activeOffers = [],
         history = [\<lparr>hist_month = 0, hist_fans = 100\<rparr>]\<rparr>)"

definition advanceTimes :: "Label list \<Rightarrow> GameState \<Rightarrow> AdvanceEnv list \<Rightarrow> GameState" where
  "advanceTimes LABELS s envs = foldl (advanceTime LABELS) s envs"

section \<open>Action handlers (App.tsx)\<close>

text \<open>
  A handler that can refuse returns an outcome: the message it shows and no new state, or
  the state it commits with \<open>setGameState\<close>. One handler runs at a time, so the state a
  handler captured and the state its update function receives are the same.
\<close>

datatype Outcome = Rejected string | Committed GameState

definition stateAfter :: "GameState \<Rightarrow> Outcome \<Rightarrow> GameState" where
  "stateAfter s out = (case out of Rejected _ \<Rightarrow> s | Committed s' \<Rightarrow> s')"

subsection \<open>Random career events and fan interactions\<close>

datatype EventOption =
  IgnoreTheDrama | ClapBack | LeanIntoIt | StayDistant | ReleaseRawDemos | IgnoreRumors

text \<open>
  The \<open>effect\<close> of an option of \<open>RANDOM_EVENTS\<close>, already merged into the player as
  \<open>handleEventChoice\<close> does; \<open>random\<close> is the draw of the options that roll one.
\<close>

fun playerUpdate :: "EventOption \<Rightarrow> GameState \<Rightarrow> real \<Rightarrow> Player" where
  "playerUpdate IgnoreTheDrama s random =
     (player s)\<lparr>skills := (skills (player s))\<lparr>charisma := charisma (skills (player s)) + 2\<rparr>\<rparr>"
| "playerUpdate ClapBack s random =
     (let success = random > 0.45
      in if success then
           (player s)\<lparr>fans := fans (player s) + 15000, fame := fame (player s) + 100000\<rparr>
         else
           (player s)\<lparr>fans := max 0 (fans (player s) - 5000),
             skills := (skills (player s))
               \<lparr>charisma := max 0 (charisma (skills (player s)) - 5)\<rparr>\<rparr>)"
| "playerUpdate LeanIntoIt s random =
     (player s)\<lparr>fans := fans (player s) + 50000,
       followers := (followers (player s))(TikTok := followers (player s) TikTok + 10000)\<rparr>"
| "playerUpdate StayDistant s random =
     (player s)\<lparr>skills := (skills (player s))\<lparr>charisma := charisma (skills (player s)) + 5\<rparr>,
       fans := fans (player s) + 10000\<rparr>"
| "playerUpdate ReleaseRawDemos s random =
     (player s)\<lparr>skills := (skills (player s))
         \<lparr>songwriting := songwriting (skills (player s)) + 5\<rparr>,
       fans := fans (player s) + 2000\<rparr>"
| "playerUpdate IgnoreRumors s random =
     (let mess = random > 0.7
      in if mess then
           (player s)\<lparr>fans := max 0 (fans (player s) - 10000),
             fame := max 0 (fame (player s) - 50000)\<rparr>
         else (player s)\<lparr>fame := fame (player s) + 1000\<rparr>)"

definition handleEventChoice :: "GameState \<Rightarrow> EventOption \<Rightarrow> real \<Rightarrow> GameState" where
  "handleEventChoice gameState option' random =
     gameState\<lparr>player := playerUpdate option' gameState random\<rparr>"

datatype BonusType = BonusFans | BonusCharisma | BonusFame | BonusMoney

definition handleFanResponse :: "GameState \<Rightarrow> BonusType \<Rightarrow> real \<Rightarrow> GameState" where
  "handleFanResponse gameState bonusType bonusValue =
     gameState\<lparr>player :=
       (case bonusType of
          BonusFans \<Rightarrow> (player gameState)\<lparr>fans := fans (player gameState) + bonusValue\<rparr>
        | BonusMoney \<Rightarrow> (player gameState)\<lparr>money := money (player gameState) + bonusValue\<rparr>
        | BonusFame \<Rightarrow> (player gameState)\<lparr>fame := fame (player gameState) + bonusValue\<rparr>
        | BonusCharisma \<Rightarrow>
            (player gameState)\<lparr>skills := (skills (player gameState))
              \<lparr>charisma := charisma (skills (player gameState)) + bonusValue\<rparr>\<rparr>)\<rparr>"

subsection \<open>The studio: drafting, recording, mastering\<close>

record DraftForm =
  draft_title :: string
  draft_genre :: Genre
  feature :: string
  useGhostwriter :: bool

record SessionCosts =
  rent :: real
  ghostwriter :: real

definition BASE_STUDIO_RENT :: real where "BASE_STUDIO_RENT = 500"

definition BASE_GHOSTWRITER_FEE :: real where "BASE_GHOSTWRITER_FEE = 2500"

definition SESSION_NOTES_REQUIRED :: nat where "SESSION_NOTES_REQUIRED = 5"

definition startDrafting :: "real \<Rightarrow> real \<Rightarrow> SessionCosts" where
  "startDrafting random1 random2 =
     \<lparr>rent = real_of_int \<lfloor>BASE_STUDIO_RENT * (0.8 + random1 * 0.4)\<rfloor>,
      ghostwriter = real_of_int \<lfloor>BASE_GHOSTWRITER_FEE * (0.8 + random2 * 0.4)\<rfloor>\<rparr>"

text \<open>\<open>REAL_ARTISTS_DATA\<close> of \<open>constants.ts\<close> is a parameter.\<close>

definition totalSessionCost :: "RealArtist list \<Rightarrow> SessionCosts \<Rightarrow> DraftForm \<Rightarrow> real" where
  "totalSessionCost REAL_ARTISTS_DATA sessionCosts draftForm =
     (let cost = rent sessionCosts;
          cost = (if useGhostwriter draftForm then cost + ghostwriter sessionCosts else cost);
          cost = (if feature draftForm \<noteq> [] then
                    (case find (\<lambda>a. artist_name a = feature draftForm) REAL_ARTISTS_DATA of
                       Some artist \<Rightarrow> cost + artist_cost artist
                     | None \<Rightarrow> cost)
                  else cost)
      in cost)"

definition startRecording ::
    "RealArtist list \<Rightarrow> GameState \<Rightarrow> SessionCosts \<Rightarrow> DraftForm \<Rightarrow> Outcome" where
  "startRecording REAL_ARTISTS_DATA gameState sessionCosts draftForm =
     (if money (player gameState) < totalSessionCost REAL_ARTISTS_DATA sessionCosts draftForm
      then Rejected ''Insufficient funds for studio time.''
      else Committed (gameState\<lparr>player := (player gameState)
             \<lparr>money := money (player gameState)
                - totalSessionCost REAL_ARTISTS_DATA sessionCosts draftForm\<rparr>\<rparr>))"

text \<open>The score of one tap of the mini-game, from the slider position.\<close>

definition handleTap :: "real \<Rightarrow> real" where
  "handleTap sliderPos = (let accuracy = 100 - \<bar>50 - sliderPos\<bar> * 2 in max 0 accuracy)"

text \<open>
  The quality that \<open>saveToVault\<close> stores, \<open>Math.min(100, quality)\<close>. The average of an
  empty score list is \<open>0 / 0\<close>, not a number: the result is \<open>None\<close> there. The studio
  shows its results only after \<open>SESSION_NOTES_REQUIRED\<close> taps.
\<close>

definition masteredQuality ::
    "RealArtist list \<Rightarrow> GameState \<Rightarrow> DraftForm \<Rightarrow> real list \<Rightarrow> real \<Rightarrow> real option" where
  "masteredQuality REAL_ARTISTS_DATA gameState draftForm miniGameScore random =
     (if miniGameScore = [] then None
      else
        (let performanceBonus = foldl (\<lambda>a b. a + b) 0 miniGameScore / real (length miniGameScore);
             baseQuality = (songwriting (skills (player gameState))
                            + production (skills (player gameState))
                            + vocals (skills (player gameState))) / 3;
             baseQuality = (if useGhostwriter draftForm then baseQuality + 15 else baseQuality);
             baseQuality =
               (if feature draftForm \<noteq> [] then
                  (case find (\<lambda>a. artist_name a = feature draftForm) REAL_ARTISTS_DATA of
                     Some artist \<Rightarrow> baseQuality + min 20 (artist_fame artist / 500000)
                   | None \<Rightarrow> baseQuality)
                else baseQuality);
             quality' = real_of_int \<lfloor>baseQuality * 0.7 + performanceBonus * 0.3 + random * 5\<rfloor>
         in Some (min 100 quality')))"

definition saveToVault ::
    "RealArtist list \<Rightarrow> GameState \<Rightarrow> DraftForm \<Rightarrow> real list \<Rightarrow> real \<Rightarrow> string \<Rightarrow> string
      \<Rightarrow> GameState option" where
  "saveToVault REAL_ARTISTS_DATA gameState draftForm miniGameScore random randomId activeLyrics =
     (if draft_title draftForm = [] then Some gameState
      else
        (case masteredQuality REAL_ARTISTS_DATA gameState draftForm miniGameScore random of
           None \<Rightarrow> None
         | Some q \<Rightarrow>
             (let newSong =
                    \<lparr>song_id = randomId, title = draft_title draftForm,
                     song_genre = draft_genre draftForm, quality = q,
                     releaseDate = currentDate gameState, streams = 0, revenue = 0,
                     lyrics = Some activeLyrics, chartPosition = None,
                     featuredArtist =
                       (if feature draftForm = [] then None else Some (feature draftForm)),
                     isMusicVideo = None\<rparr>
              in Some (gameState
                   \<lparr>unreleasedSongs := newSong # unreleasedSongs gameState,
                    news := take 15
                      ((''Session wrapped: '' @ dquote @ draft_title draftForm @ dquote
                        @ '' master added to vault.'') # news gameState)\<rparr>))))"

subsection \<open>Releases\<close>

definition produceMusicVideo ::
    "GameState \<Rightarrow> Song \<Rightarrow> string option \<Rightarrow> string \<Rightarrow> nat \<Rightarrow> Outcome" where
  "produceMusicVideo gameState song thumbnailReply randomId now =
     (let cost = 15000 in
      if money (player gameState) < cost
      then Rejected ''Insufficient funds for Music Video production.''
      else
        (let thumbnailUrl' = generateThumbnail thumbnailReply;
             fanGain' = real_of_int \<lfloor>fans (player gameState) * 0.1\<rfloor> + 20000;
             fameGain = quality song * 2000;
             releasePost =
               \<lparr>post_id = randomId, post_platform = YouTube,
                content = ''The official music video for '' @ dquote @ title song @ dquote
                  @ '' is out now! '' @ clapper @ fire,
                post_type = ''Music Video'',
                likes = real_of_int \<lfloor>fanGain' * 3\<rfloor>,
                comments = [\<lparr>comment_user = ''vfx_master'',
                             comment_text = ''Best visuals I've seen all year!''\<rparr>],
                timestamp = now,
                impact = \<lparr>impact_fans = fanGain', impact_fame = fameGain, streamsBoost = None\<rparr>,
                videoTitle = Some (title song @ '' (Official Music Video)''),
                videoDescription = None,
                thumbnailUrl = thumbnailUrl'\<rparr>
         in Committed (gameState
              \<lparr>player := (player gameState)
                 \<lparr>money := money (player gameState) - cost,
                  fans := fans (player gameState) + fanGain',
                  fame := fame (player gameState) + fameGain,
                  followers := (followers (player gameState))
                    (YouTube := followers (player gameState) YouTube
                       + real_of_int \<lfloor>fanGain' * 0.4\<rfloor>)\<rparr>,
               songs := map (\<lambda>s. if song_id s = song_id song then s\<lparr>isMusicVideo := Some True\<rparr>
                                  else s) (songs gameState),
               socialPosts := releasePost # socialPosts gameState,
               news := take 15
                 ((stageName (player gameState) @ [CHR 0x27] @ ''s visuals for '' @ dquote
                   @ title song @ dquote @ '' are breaking the internet!'')
                  # news gameState)\<rparr>)))"

definition distributeSong ::
    "GameState \<Rightarrow> Song \<Rightarrow> SocialPlatform \<Rightarrow> string option \<Rightarrow> ImpactReply option
      \<Rightarrow> string option \<Rightarrow> string \<Rightarrow> nat \<Rightarrow> Outcome" where
  "distributeSong gameState song platform thumbnailReply impactReply newsReply randomId now =
     (let cost = (if platform = YouTube then 15000 else 250);
          thumbnailUrl' = (if platform = YouTube then generateThumbnail thumbnailReply else None)
      in
      if money (player gameState) < cost
      then Rejected (''Insufficient funds for '' @ platformName platform @ '' distribution.'')
      else
        (let estimate = calculateSongImpact impactReply (quality song) (fans (player gameState));
             fanGain' = fanGain estimate;
             industryNews = generateIndustryNews newsReply (stageName (player gameState));
             updatedSong = song\<lparr>releaseDate := currentDate gameState,
                                isMusicVideo := Some (platform = YouTube)\<rparr>;
             releasePost =
               \<lparr>post_id = randomId, post_platform = platform,
                content = ''My new '' @ (if platform = YouTube then ''Music Video'' else ''Track'')
                  @ '' '' @ dquote @ title song @ dquote @ '' is out now!'',
                post_type = (if platform = YouTube then ''Music Video'' else ''Audio Release''),
                likes = real_of_int \<lfloor>fanGain' * 2.5\<rfloor>,
                comments = [\<lparr>comment_user = ''music_bot'',
                             comment_text = ''Absolute heater! '' @ fire\<rparr>],
                timestamp = now,
                impact = \<lparr>impact_fans = fanGain', impact_fame = quality song * 100,
                          streamsBoost = None\<rparr>,
                videoTitle = (if platform = YouTube then Some (title song) else None),
                videoDescription = None,
                thumbnailUrl = thumbnailUrl'\<rparr>
         in Committed (gameState
              \<lparr>player := (player gameState)
                 \<lparr>money := money (player gameState) - cost,
                  fans := fans (player gameState)
                    + (if platform = YouTube then fanGain' * 2 else fanGain'),
                  fame := fame (player gameState)
                    + (if platform = YouTube then quality song * 2000 else quality song * 1000),
                  followers := (followers (player gameState))
                    (platform := followers (player gameState) platform
                       + real_of_int \<lfloor>fanGain' * 0.2\<rfloor>)\<rparr>,
               songs := updatedSong # songs gameState,
               unreleasedSongs := filter (\<lambda>s. song_id s \<noteq> song_id song)
                                    (unreleasedSongs gameState),
               socialPosts := releasePost # socialPosts gameState,
               news := take 15 (industryNews # news gameState)\<rparr>)))"


subsection \<open>Social posts and sponsorships\<close>

record PostDraft =
  draft_content :: string
  draft_type :: string
  targetSongId :: string
  draft_videoTitle :: string
  draft_videoDescription :: string

definition handlePostSocial ::
    "GameState \<Rightarrow> SocialPlatform \<Rightarrow> PostDraft \<Rightarrow> bool \<Rightarrow> string option
      \<Rightarrow> PostComment list option \<Rightarrow> string \<Rightarrow> nat \<Rightarrow> GameState" where
  "handlePostSocial gameState activePlatform postDraft isPosting thumbnailReply engagementReply
       randomId now =
     (if activePlatform = YouTube \<and> (draft_videoTitle postDraft = [] \<or> isPosting) then gameState
      else if activePlatform \<noteq> YouTube \<and> (draft_content postDraft = [] \<or> isPosting)
      then gameState
      else
        (let trendMatches = length (filter (\<lambda>t. includes_str (draft_content postDraft) t)
                                     (trendingTopics gameState));
             trendMultiplier = (if trendMatches > 0 then 1.5 + real trendMatches * 0.2 else 1);
             thumbnailUrl' =
               (if activePlatform = YouTube then generateThumbnail thumbnailReply else None);
             engagement = generateSocialEngagement engagementReply;
             baseAudience = fans (player gameState) * 0.01 + 10;
             fanGain' =
               (case activePlatform of
                  Instagram \<Rightarrow> real_of_int \<lfloor>baseAudience * 0.5 * trendMultiplier\<rfloor>
                | TikTok \<Rightarrow> real_of_int \<lfloor>baseAudience * 2 * trendMultiplier\<rfloor>
                | YouTube \<Rightarrow> real_of_int \<lfloor>baseAudience * 1.5 * trendMultiplier\<rfloor>
                | _ \<Rightarrow> real_of_int \<lfloor>baseAudience * 0.2 * trendMultiplier\<rfloor>);
             fameGain =
               (case activePlatform of
                  Instagram \<Rightarrow> fanGain' * 2
                | TikTok \<Rightarrow> fanGain'
                | YouTube \<Rightarrow> fanGain' * 4
                | _ \<Rightarrow> fanGain');
             newPost =
               \<lparr>post_id = randomId, post_platform = activePlatform,
                content = draft_content postDraft, post_type = draft_type postDraft,
                likes = real_of_int \<lfloor>fanGain' * 2\<rfloor>,
                comments = engagement, timestamp = now,
                impact = \<lparr>impact_fans = fanGain', impact_fame = fameGain, streamsBoost = None\<rparr>,
                videoTitle =
                  (if activePlatform = YouTube then Some (draft_videoTitle postDraft) else None),
                videoDescription =
                  (if activePlatform = YouTube then Some (draft_videoDescription postDraft)
                   else None),
                thumbnailUrl = thumbnailUrl'\<rparr>
         in gameState
              \<lparr>socialPosts := newPost # socialPosts gameState,
               player := (player gameState)
                 \<lparr>fans := fans (player gameState) + fanGain',
                  fame := fame (player gameState) + fameGain,
                  followers := (followers (player gameState))
                    (activePlatform := followers (player gameState) activePlatform + fanGain')\<rparr>\<rparr>))"

definition handleAcceptDeal ::
    "GameState \<Rightarrow> SponsoredOffer \<Rightarrow> SocialPlatform \<Rightarrow> string \<Rightarrow> nat \<Rightarrow> GameState" where
  "handleAcceptDeal gameState deal activePlatform randomId now =
     (let postContent = ''I am so excited to partner with '' @ brand deal @ ''! ''
            @ requirement deal @ '' #Ad #Sponsored'';
          fanGain' = real_of_int \<lfloor>fans (player gameState) * 0.02\<rfloor>;
          charismaPenalty' = charismaPenalty deal;
          newPost =
            \<lparr>post_id = randomId, post_platform = activePlatform,
             content = postContent, post_type = ''Sponsored'',
             likes = real_of_int \<lfloor>fanGain' * 0.5\<rfloor>,
             comments = [\<lparr>comment_user = ''sponsorship_bot'',
                          comment_text = ''Verified partner! '' @ checkMark\<rparr>],
             timestamp = now,
             impact = \<lparr>impact_fans = fanGain', impact_fame = fanGain' * 2, streamsBoost = None\<rparr>,
             videoTitle = None, videoDescription = None, thumbnailUrl = None\<rparr>
      in gameState
           \<lparr>player := (player gameState)
              \<lparr>money := money (player gameState) + payout deal,
               skills := (skills (player gameState))
                 \<lparr>charisma := max 0 (charisma (skills (player gameState)) - charismaPenalty')\<rparr>\<rparr>,
            socialPosts := newPost # socialPosts gameState,
            activeOffers := filter (\<lambda>off. offer_id off \<noteq> offer_id deal) (activeOffers gameState)\<rparr>)"

definition schedulePostForSong ::
    "GameState \<Rightarrow> Song \<Rightarrow> SocialPlatform \<Rightarrow> PostComment list option \<Rightarrow> string \<Rightarrow> nat
      \<Rightarrow> GameState" where
  "schedulePostForSong gameState song platform engagementReply randomId now =
     (let content' = ''Coming soon to '' @ platformName platform @ '': '' @ dquote @ title song
            @ dquote @ ''! Get ready. #NewMusic #'' @ stageName (player gameState);
          engagement = generateSocialEngagement engagementReply;
          baseAudience = fans (player gameState) * 0.02 + 50;
          fanGain' = real_of_int \<lfloor>baseAudience\<rfloor>;
          fameGain = fanGain' * 3;
          target = (if platform = YouTube then YouTube else Instagram);
          newPost =
            \<lparr>post_id = randomId, post_platform = target,
             content = content', post_type = ''Teaser'',
             likes = fanGain' * 5, comments = engagement, timestamp = now,
             impact = \<lparr>impact_fans = fanGain', impact_fame = fameGain, streamsBoost = None\<rparr>,
             videoTitle = None, videoDescription = None, thumbnailUrl = None\<rparr>
      in gameState
           \<lparr>socialPosts := newPost # socialPosts gameState,
            player := (player gameState)
              \<lparr>fans := fans (player gameState) + fanGain',
               fame := fame (player gameState) + fameGain,
               followers := (followers (player gameState))
                 (target := followers (player gameState) target
                    + real_of_int \<lfloor>fanGain' * 0.5\<rfloor>)\<rparr>\<rparr>)"

section \<open>The shorter variant of App.tsx\<close>

text \<open>
  The definitions above follow the \<open>App.tsx\<close> of \<open>src/unnamed/part_001\<close>, the one that
  type-checks against the \<open>types.ts\<close> in the same file. \<open>src/unnamed/part_000\<close> holds, after
  the oracle service, a shorter \<open>App.tsx\<close>: its \<open>getStreamRate\<close> is the same function, and
  its \<open>runAwardsSeason\<close>, \<open>advanceTime\<close>, \<open>saveToVault\<close> and \<open>handleAcceptDeal\<close> are the
  following.
\<close>

definition runAwardsSeason_alt :: "GameState \<Rightarrow> string \<Rightarrow> Award list" where
  "runAwardsSeason_alt state randomSuffix =
     (let year = fullYear (currentDate state)
      in if fans (player state) > 1000000 \<and> length (songs state) \<ge> 3 then
           (case sort_key (\<lambda>s. - quality s) (songs state) of
              [] \<Rightarrow> []
            | bestSong # _ \<Rightarrow>
                (if quality bestSong > 85 then
                   [\<lparr>award_id = ''aoy-'' @ showInt year @ ''-'' @ randomSuffix,
                     award_year = year,
                     category = ''Album of the Year'',
                     reason = ''Masterpiece of production and songwriting.''\<rparr>]
                 else []))
         else [])"

definition advanceTime_alt :: "Label list \<Rightarrow> GameState \<Rightarrow> AdvanceEnv \<Rightarrow> GameState" where
  "advanceTime_alt LABELS prev env =
     (let nextWeek = currentWeek prev + 1;
          nextDate = currentDate prev;
          newPlayerState = player prev
      in if nextWeek > 4 then
           (let nextDate = setNextMonth nextDate;
                newTrending = generateTrendingTopics (trendingReply env);
                newOffers =
                  (if offerRoll env < 0.6 then
                     take 3 (generateSponsoredOffer (offerReply env) (offerRandomId env)
                             # activeOffers prev)
                   else activeOffers prev);
                wonAwards =
                  (if monthIndex nextDate = 0 then runAwardsSeason_alt prev (aoyRandom env)
                   else []);
                newAwards = awards prev @ wonAwards;
                newPlayerState = newPlayerState
                  \<lparr>fame := fame newPlayerState + real (length wonAwards) * 500000,
                   money := money newPlayerState + real (length wonAwards) * 100000\<rparr>;
                newPlayerState = newPlayerState
                  \<lparr>money := money newPlayerState + monthlyRoyalties LABELS prev env,
                   fans := fans newPlayerState + real_of_int \<lfloor>fans (player prev) * 0.05\<rfloor>\<rparr>;
                newHistory = history prev @
                  [\<lparr>hist_month = length (history prev), hist_fans = fans newPlayerState\<rparr>]
            in prev\<lparr>currentDate := nextDate, currentWeek := 1,
                    player := newPlayerState, songs := updatedSongs prev env,
                    awards := newAwards, news := take 15 (news prev), history := newHistory,
                    trendingTopics := newTrending, activeOffers := newOffers\<rparr>)
         else
           (let newPlayerState = newPlayerState
                  \<lparr>fans := fans newPlayerState + real_of_int \<lfloor>fans (player prev) * 0.01\<rfloor>\<rparr>
            in prev\<lparr>currentDate := nextDate, currentWeek := nextWeek,
                    player := newPlayerState, songs := updatedSongs prev env,
                    awards := awards prev, news := take 15 (news prev), history := history prev,
                    trendingTopics := trendingTopics prev, activeOffers := activeOffers prev\<rparr>))"

text \<open>
  The quality that the shorter \<open>saveToVault\<close> stores: no ghostwriter and no featured
  artist enter it.
\<close>

definition masteredQuality_alt :: "GameState \<Rightarrow> real list \<Rightarrow> real \<Rightarrow> real option" where
  "masteredQuality_alt gameState miniGameScore random =
     (if miniGameScore = [] then None
      else
        (let performanceBonus = foldl (\<lambda>a b. a + b) 0 miniGameScore / real (length miniGameScore);
             baseQuality = (songwriting (skills (player gameState))
                            + production (skills (player gameState))
                            + vocals (skills (player gameState))) / 3;
             quality' = real_of_int \<lfloor>baseQuality * 0.7 + performanceBonus * 0.3 + random * 5\<rfloor>
         in Some (min 100 quality')))"

definition handleAcceptDeal_alt ::
    "GameState \<Rightarrow> SponsoredOffer \<Rightarrow> PostComment list option \<Rightarrow> string \<Rightarrow> nat \<Rightarrow> GameState" where
  "handleAcceptDeal_alt gameState deal engagementReply randomId now =
     (let engagement = generateSocialEngagement engagementReply
      in gameState
           \<lparr>player := (player gameState)
              \<lparr>money := money (player gameState) + payout deal,
               skills := (skills (player gameState))
                 \<lparr>charisma := max 0 (charisma (skills (player gameState))
                                      - charismaPenalty deal)\<rparr>\<rparr>,
            activeOffers := filter (\<lambda>off. offer_id off \<noteq> offer_id deal) (activeOffers gameState),
            socialPosts :=
              \<lparr>post_id = randomId, post_platform = Instagram,
               content = requirement deal, post_type = ''Sponsored'',
               likes = real_of_int \<lfloor>fans (player gameState) * 0.05\<rfloor>,
               comments = engagement, timestamp = now,
               impact = \<lparr>impact_fans = 0, impact_fame = 5000, streamsBoost = None\<rparr>,
               videoTitle = None, videoDescription = None, thumbnailUrl = None\<rparr>
              # socialPosts gameState\<rparr>)"

section \<open>Reachable career states\<close>

text \<open>
  The states of a career: the one \<open>handleStartGame\<close> installs, closed under every handler
  that calls \<open>setGameState\<close>, with any draws, oracle replies and arguments (the interface
  passes only songs and offers of the state; any argument is allowed here, which can only
  add states). Loading a save installs a state that an earlier handler committed.
\<close>

inductive reachable :: "Label list \<Rightarrow> RealArtist list \<Rightarrow> GameState \<Rightarrow> bool"
  for LABELS :: "Label list" and REAL_ARTISTS_DATA :: "RealArtist list" where
  start: "handleStartGame name' stageName' genre' = Some s
      \<Longrightarrow> reachable LABELS REAL_ARTISTS_DATA s"
| advance: "reachable LABELS REAL_ARTISTS_DATA s
      \<Longrightarrow> reachable LABELS REAL_ARTISTS_DATA (advanceTime LABELS s env)"
| eventChoice: "reachable LABELS REAL_ARTISTS_DATA s
      \<Longrightarrow> reachable LABELS REAL_ARTISTS_DATA (handleEventChoice s option' random)"
| fanResponse: "reachable LABELS REAL_ARTISTS_DATA s
      \<Longrightarrow> reachable LABELS REAL_ARTISTS_DATA (handleFanResponse s bonusType bonusValue)"
| recording: "reachable LABELS REAL_ARTISTS_DATA s
      \<Longrightarrow> reachable LABELS REAL_ARTISTS_DATA
            (stateAfter s (startRecording REAL_ARTISTS_DATA s sessionCosts draftForm))"
| vault: "reachable LABELS REAL_ARTISTS_DATA s
      \<Longrightarrow> saveToVault REAL_ARTISTS_DATA s draftForm miniGameScore random randomId activeLyrics
            = Some s'
      \<Longrightarrow> reachable LABELS REAL_ARTISTS_DATA s'"
| musicVideo: "reachable LABELS REAL_ARTISTS_DATA s
      \<Longrightarrow> reachable LABELS REAL_ARTISTS_DATA
            (stateAfter s (produceMusicVideo s song thumbnailReply randomId now))"
| distribute: "reachable LABELS REAL_ARTISTS_DATA s
      \<Longrightarrow> reachable LABELS REAL_ARTISTS_DATA
            (stateAfter s (distributeSong s song platform thumbnailReply impactReply newsReply
               randomId now))"
| postSocial: "reachable LABELS REAL_ARTISTS_DATA s
      \<Longrightarrow> reachable LABELS REAL_ARTISTS_DATA
            (handlePostSocial s activePlatform postDraft isPosting thumbnailReply engagementReply
               randomId now)"
| acceptDeal: "reachable LABELS REAL_ARTISTS_DATA s
      \<Longrightarrow> reachable LABELS REAL_ARTISTS_DATA (handleAcceptDeal s deal activePlatform randomId now)"
| schedulePost: "reachable LABELS REAL_ARTISTS_DATA s
      \<Longrightarrow> reachable LABELS REAL_ARTISTS_DATA
            (schedulePostForSong s song platform engagementReply randomId now)"

text \<open>
  The skills that enter the quality of a master are not negative: an invariant of the
  reachable states.
\<close>

definition studioSkills :: "GameState \<Rightarrow> bool" where
  "studioSkills s \<longleftrightarrow> 0 \<le> songwriting (skills (player s)) \<and> 0 \<le> production (skills (player s))
     \<and> 0 \<le> vocals (skills (player s))"

section \<open>Concrete careers used in the examples\<close>

text \<open>
  Modelled from the spec: the label catalogue \<open>LABELS\<close> of \<open>constants.ts\<close> is not among
  the sources; the spec gives the self-released default label, the label of a fresh career,
  a revenue share of 100 percent. The engine takes the catalogue as a parameter; the
  examples use this one.
\<close>

definition indieLabels :: "Label list" where
  "indieLabels =
     [\<lparr>label_id = ''indie_self'', label_name = ''Independent'', prestige = 0,
       fameRequirement = 0, signingBonus = 0, revenueSplit = 100,
       description = ''Self-released'', logo = []\<rparr>]"

definition freshCareer :: GameState where
  "freshCareer = the (handleStartGame ''Ada'' ''Nova'' POP)"

definition quietEnv :: AdvanceEnv where
  "quietEnv = \<lparr>streamRoll = (\<lambda>i. 0.5), trendingReply = None, offerRoll = 0.9,
     offerReply = None, offerRandomId = ''x1'', aoyRandom = ''a1'', botyRandom = ''b1''\<rparr>"

definition offlineOfferEnv :: AdvanceEnv where
  "offlineOfferEnv = quietEnv\<lparr>offerRoll := 0.1\<rparr>"

definition demoSong :: Song where
  "demoSong = \<lparr>song_id = ''s1'', title = ''Demo'', song_genre = POP, quality = 100,
     releaseDate = \<lparr>fullYear = 2025, monthIndex = 0\<rparr>, streams = 0, revenue = 0,
     lyrics = None, chartPosition = None, featuredArtist = None, isMusicVideo = Some False\<rparr>"

definition monthStart :: GameState where
  "monthStart = freshCareer\<lparr>currentWeek := 1,
     player := (player freshCareer)\<lparr>fans := 2000\<rparr>, songs := [demoSong]\<rparr>"

definition awardSeasonState :: GameState where
  "awardSeasonState = freshCareer\<lparr>currentWeek := 4,
     currentDate := \<lparr>fullYear = 2025, monthIndex = 11\<rparr>,
     player := (player freshCareer)\<lparr>fans := 1500000, fame := 6000000\<rparr>,
     songs := [demoSong\<lparr>quality := 50\<rparr>, demoSong\<lparr>song_id := ''s2'', quality := 90\<rparr>,
               demoSong\<lparr>song_id := ''s3'', quality := 50\<rparr>]\<rparr>"


definition sponsorEnv :: "string \<Rightarrow> AdvanceEnv" where
  "sponsorEnv randomId = quietEnv\<lparr>offerRoll := 0.1,
     offerReply := Some \<lparr>reply_brand = ''Brand '' @ randomId, reply_payout = 1000,
       reply_requirement = ''Post it'', reply_charismaPenalty = 2\<rparr>,
     offerRandomId := randomId\<rparr>"

definition threeOffers :: GameState where
  "threeOffers = advanceTimes [] freshCareer
     [quietEnv, quietEnv, quietEnv, quietEnv, sponsorEnv ''o1'',
      quietEnv, quietEnv, quietEnv, sponsorEnv ''o2'',
      quietEnv, quietEnv, quietEnv, sponsorEnv ''o3'',
      quietEnv, quietEnv, quietEnv]"

definition twoFallbacks :: GameState where
  "twoFallbacks = advanceTimes [] freshCareer
     [quietEnv, quietEnv, quietEnv, quietEnv, offlineOfferEnv,
      quietEnv, quietEnv, quietEnv, offlineOfferEnv]"

definition fundedCareer :: GameState where
  "fundedCareer = freshCareer\<lparr>player := (player freshCareer)\<lparr>money := 20000\<rparr>\<rparr>"


definition starArtists :: "RealArtist list" where
  "starArtists = [\<lparr>artist_name = ''Star'', artist_fame = 5000000, artist_cost = 10000\<rparr>]"

definition starDraft :: DraftForm where
  "starDraft = \<lparr>draft_title = ''Demo'', draft_genre = POP, feature = ''Star'',
     useGhostwriter = True\<rparr>"

section \<open>Helper facts\<close>

subsection \<open>What one time advancement does to each part of the state\<close>

lemma advanceTime_currentWeek:
  "currentWeek (advanceTime LABELS prev env)
     = (if currentWeek prev + 1 > 4 then 1 else currentWeek prev + 1)"
  by (simp add: advanceTime_def Let_def)

lemma advanceTime_fans:
  "fans (player (advanceTime LABELS prev env))
     = fans (player prev)
       + real_of_int \<lfloor>fans (player prev) * (if currentWeek prev + 1 > 4 then 0.05 else 0.01)\<rfloor>"
  by (simp add: advanceTime_def Let_def)

lemma advanceTime_fame:
  "fame (player (advanceTime LABELS prev env))
     = fame (player prev)
       + (if currentWeek prev + 1 > 4 \<and> monthIndex (currentDate prev) = 11
          then real (length (runAwardsSeason prev (aoyRandom env) (botyRandom env))) * 500000
          else 0)"
  by (simp add: advanceTime_def Let_def)

lemma advanceTime_money:
  "money (player (advanceTime LABELS prev env))
     = (if currentWeek prev + 1 > 4 then
          money (player prev)
          + (if monthIndex (currentDate prev) = 11
             then real (length (runAwardsSeason prev (aoyRandom env) (botyRandom env))) * 100000
             else 0)
          + monthlyRoyalties LABELS prev env
        else money (player prev))"
  by (simp add: advanceTime_def Let_def)

lemma advanceTime_songs:
  "songs (advanceTime LABELS prev env) = updatedSongs prev env"
  by (simp add: advanceTime_def Let_def)

lemma advanceTime_awards:
  "awards (advanceTime LABELS prev env)
     = awards prev @
       (if currentWeek prev + 1 > 4 \<and> monthIndex (currentDate prev) = 11
        then runAwardsSeason prev (aoyRandom env) (botyRandom env) else [])"
  by (simp add: advanceTime_def Let_def)

lemma advanceTime_trendingTopics:
  "trendingTopics (advanceTime LABELS prev env)
     = (if currentWeek prev + 1 > 4 then generateTrendingTopics (trendingReply env)
        else trendingTopics prev)"
  by (simp add: advanceTime_def Let_def)

lemma advanceTime_activeOffers:
  "activeOffers (advanceTime LABELS prev env)
     = (if currentWeek prev + 1 > 4 \<and> offerRoll env < 0.6
        then take 3 (generateSponsoredOffer (offerReply env) (offerRandomId env)
                     # activeOffers prev)
        else activeOffers prev)"
  by (simp add: advanceTime_def Let_def)

lemma advanceTime_currentDate:
  "currentDate (advanceTime LABELS prev env)
     = (if currentWeek prev + 1 > 4 then setNextMonth (currentDate prev) else currentDate prev)"
  by (simp add: advanceTime_def Let_def)

lemma advanceTime_labelId:
  "labelId (player (advanceTime LABELS prev env)) = labelId (player prev)"
  by (simp add: advanceTime_def Let_def)

lemma advanceTime_skills: "skills (player (advanceTime L s env)) = skills (player s)"
  by (simp add: advanceTime_def Let_def)

lemmas advanceTime_proj =
  advanceTime_currentWeek advanceTime_fans advanceTime_fame advanceTime_money
  advanceTime_songs advanceTime_awards advanceTime_trendingTopics advanceTime_activeOffers
  advanceTime_currentDate advanceTime_labelId

lemma updatedSongs_single:
  "songs prev = [s] \<Longrightarrow> updatedSongs prev env
     = [streamedSong prev (getStreamRate (fans (player prev))) s (streamRoll env 0)]"
  by (simp add: updatedSongs_def enumerate_simps)

lemma updatedSongs_no_songs: "songs prev = [] \<Longrightarrow> updatedSongs prev env = []"
  by (simp add: updatedSongs_def)

lemma monthlyRoyalties_no_songs: "songs prev = [] \<Longrightarrow> monthlyRoyalties LABELS prev env = 0"
  by (simp add: monthlyRoyalties_def monthlyActivity_def updatedSongs_def)

subsection \<open>The example careers\<close>

lemma freshCareer_proj:
  "currentWeek freshCareer = 0" "fans (player freshCareer) = 100" "fame (player freshCareer) = 0"
  "money (player freshCareer) = 5000" "songs freshCareer = []" "awards freshCareer = []"
  "activeOffers freshCareer = []"
  "trendingTopics freshCareer = [''#MusicVibes'', ''#Stardom'', ''#NewArtist'']"
  "currentDate freshCareer = \<lparr>fullYear = 2025, monthIndex = 0\<rparr>"
  by (simp_all add: freshCareer_def handleStartGame_def)

lemma monthStart_proj:
  "currentWeek monthStart = 1" "fans (player monthStart) = 2000" "fame (player monthStart) = 0"
  "money (player monthStart) = 5000" "songs monthStart = [demoSong]"
  "labelId (player monthStart) = Some ''indie_self''"
  "currentDate monthStart = \<lparr>fullYear = 2025, monthIndex = 0\<rparr>"
  by (simp_all add: monthStart_def freshCareer_def handleStartGame_def)

lemma awardSeasonState_proj:
  "currentWeek awardSeasonState = 4" "fans (player awardSeasonState) = 1500000"
  "fame (player awardSeasonState) = 6000000" "money (player awardSeasonState) = 5000"
  "awards awardSeasonState = []"
  "currentDate awardSeasonState = \<lparr>fullYear = 2025, monthIndex = 11\<rparr>"
  "map quality (songs awardSeasonState) = [50, 90, 50]"
  by (simp_all add: awardSeasonState_def freshCareer_def handleStartGame_def)

lemma sponsorEnv_proj:
  "offerRoll (sponsorEnv i) = 0.1" "offerRandomId (sponsorEnv i) = i"
  "offer_id (generateSponsoredOffer (offerReply (sponsorEnv i)) i) = i"
  "offerRoll quietEnv = 0.9"
  by (simp_all add: sponsorEnv_def quietEnv_def generateSponsoredOffer_def)

lemma threeOffers_proj:
  "currentWeek threeOffers = 4" "map offer_id (activeOffers threeOffers) = [''o3'', ''o2'', ''o1'']"
  by (simp_all add: threeOffers_def advanceTimes_def advanceTime_currentWeek
      advanceTime_activeOffers freshCareer_proj sponsorEnv_proj)

lemma twoFallbacks_proj:
  "activeOffers twoFallbacks = [fallbackOffer, fallbackOffer]"
  by (simp add: twoFallbacks_def advanceTimes_def advanceTime_currentWeek
      advanceTime_activeOffers freshCareer_proj offlineOfferEnv_def quietEnv_def
      generateSponsoredOffer_def)

subsection \<open>Reachable states\<close>

lemma reachable_advanceTimes:
  "reachable L A s \<Longrightarrow> reachable L A (advanceTimes L s envs)"
  unfolding advanceTimes_def
  by (induction envs arbitrary: s) (auto intro: reachable.advance)

lemma reachable_freshCareer: "reachable L A freshCareer"
  by (rule reachable.start [of "''Ada''" "''Nova''" POP])
     (simp add: freshCareer_def handleStartGame_def)

lemma stateAfter_activeOffers:
  "activeOffers (stateAfter s (startRecording A s c d)) = activeOffers s"
  "activeOffers (stateAfter s (produceMusicVideo s song tr rid now)) = activeOffers s"
  "activeOffers (stateAfter s (distributeSong s song p tr ir nr rid now)) = activeOffers s"
  by (simp_all add: stateAfter_def startRecording_def produceMusicVideo_def distributeSong_def
      Let_def)

lemma handlers_activeOffers:
  "activeOffers (handleEventChoice s opt r) = activeOffers s"
  "activeOffers (handleFanResponse s bt bv) = activeOffers s"
  "activeOffers (handlePostSocial s ap pd ip tr er rid now) = activeOffers s"
  "activeOffers (schedulePostForSong s song p er rid now) = activeOffers s"
  "activeOffers (handleAcceptDeal s deal ap rid now)
     = filter (\<lambda>off. offer_id off \<noteq> offer_id deal) (activeOffers s)"
  by (simp_all add: handleEventChoice_def handleFanResponse_def handlePostSocial_def
      schedulePostForSong_def handleAcceptDeal_def Let_def)

lemma saveToVault_activeOffers:
  "saveToVault A s d ms r rid al = Some s' \<Longrightarrow> activeOffers s' = activeOffers s"
  by (auto simp: saveToVault_def Let_def split: if_splits option.splits)

lemma reachable_activeOffers: "reachable L A s \<Longrightarrow> length (activeOffers s) \<le> 3"
proof (induction rule: reachable.induct)
  case (start name' stageName' genre' s)
  then show ?case by (auto simp: handleStartGame_def split: if_splits)
next
  case (advance s env)
  then show ?case by (simp add: advanceTime_activeOffers)
next
  case (acceptDeal s deal activePlatform randomId now)
  have "length (filter (\<lambda>off. offer_id off \<noteq> offer_id deal) (activeOffers s))
          \<le> length (activeOffers s)" by (rule length_filter_le)
  also have "\<dots> \<le> 3" by (rule acceptDeal.IH)
  finally show ?case by (simp add: handlers_activeOffers)
next
  case (vault s draftForm miniGameScore random randomId activeLyrics s')
  then show ?case by (simp add: saveToVault_activeOffers)
qed (simp_all add: handlers_activeOffers stateAfter_activeOffers)

lemma playerUpdate_studioSkills:
  "studioSkills s \<Longrightarrow> studioSkills (handleEventChoice s opt r)"
  by (cases opt) (simp_all add: studioSkills_def handleEventChoice_def Let_def)

lemma handlers_studioSkills:
  "studioSkills s \<Longrightarrow> studioSkills (handleFanResponse s bt bv)"
  "studioSkills s \<Longrightarrow> studioSkills (stateAfter s (startRecording A s c d))"
  "studioSkills s \<Longrightarrow> studioSkills (stateAfter s (produceMusicVideo s song tr rid now))"
  "studioSkills s \<Longrightarrow> studioSkills (stateAfter s (distributeSong s song p tr ir nr rid now))"
  "studioSkills s \<Longrightarrow> studioSkills (handlePostSocial s ap pd ip tr er rid now)"
  "studioSkills s \<Longrightarrow> studioSkills (handleAcceptDeal s deal ap rid now)"
  "studioSkills s \<Longrightarrow> studioSkills (schedulePostForSong s song p er rid now)"
  by (simp_all add: studioSkills_def handleFanResponse_def stateAfter_def startRecording_def
      produceMusicVideo_def distributeSong_def handlePostSocial_def handleAcceptDeal_def
      schedulePostForSong_def Let_def split: BonusType.splits)

lemma saveToVault_studioSkills:
  "saveToVault A s d ms r rid al = Some s' \<Longrightarrow> studioSkills s \<Longrightarrow> studioSkills s'"
  by (auto simp: saveToVault_def studioSkills_def Let_def split: if_splits option.splits)

lemma reachable_studioSkills: "reachable L A s \<Longrightarrow> studioSkills s"
proof (induction rule: reachable.induct)
  case (start name' stageName' genre' s)
  then show ?case by (auto simp: handleStartGame_def studioSkills_def split: if_splits)
next
  case (advance s env)
  then show ?case by (simp add: studioSkills_def advanceTime_skills)
next
  case (vault s draftForm miniGameScore random randomId activeLyrics s')
  then show ?case by (blast intro: saveToVault_studioSkills)
qed (simp_all add: handlers_studioSkills playerUpdate_studioSkills)

section \<open>Monthly settlement\<close>

text \<open>
  The settlement sums, over the songs after the call, their streams minus the streams of
  the song with the same identifier before the call. With distinct identifiers this is the
  sum of the gains of this one call: the gains of the three calls before it are in neither
  state.
\<close>

lemma foldl_add_sum_list:
  "foldl (\<lambda>acc x. acc + g x) (a::real) ys = a + sum_list (map g ys)"
  by (induction ys arbitrary: a) simp_all

lemma find_own_id:
  "distinct (map song_id xs) \<Longrightarrow> x \<in> set xs
     \<Longrightarrow> find (\<lambda>s. song_id s = song_id x) xs = Some x"
proof (induction xs)
  case Nil
  then show ?case by simp
next
  case (Cons a xs)
  show ?case
  proof (cases "x = a")
    case True
    then show ?thesis by simp
  next
    case False
    with Cons.prems have xin: "x \<in> set xs" by simp
    have "song_id a \<notin> set (map song_id xs)" using Cons.prems(1) by simp
    then have "song_id a \<noteq> song_id x" using xin by (metis image_eqI set_map)
    with Cons xin show ?thesis by simp
  qed
qed

lemma monthlyActivity_this_call_only:
  assumes "distinct (map song_id (songs prev))"
  shows "monthlyActivity prev (updatedSongs prev env)
           = sum_list (map (\<lambda>(i, song). finalWeeklyGain prev song (streamRoll env i))
                        (enumerate 0 (songs prev)))"
proof -
  let ?old = "\<lambda>song. case find (\<lambda>s. song_id s = song_id song) (songs prev) of
                        None \<Rightarrow> 0 | Some s \<Rightarrow> streams s"
  let ?f = "\<lambda>(i, song). streamedSong prev (getStreamRate (fans (player prev))) song
                            (streamRoll env i)"
  have "monthlyActivity prev (updatedSongs prev env)
          = sum_list (map (\<lambda>u. streams u - ?old u) (map ?f (enumerate 0 (songs prev))))"
    by (simp add: monthlyActivity_def updatedSongs_def Let_def foldl_add_sum_list)
  also have "\<dots> = sum_list (map (\<lambda>p. streams (?f p) - ?old (?f p)) (enumerate 0 (songs prev)))"
    by (simp add: comp_def)
  also have "\<dots> = sum_list (map (\<lambda>(i, song). finalWeeklyGain prev song (streamRoll env i))
                        (enumerate 0 (songs prev)))"
  proof (rule arg_cong [where f = sum_list], rule map_cong [OF refl])
    fix p assume pin: "p \<in> set (enumerate 0 (songs prev))"
    obtain i song where p: "p = (i, song)" by (cases p)
    from pin have "i < length (songs prev)" "songs prev ! i = song"
      by (simp_all add: p in_set_enumerate_eq)
    then have sin: "song \<in> set (songs prev)" by (metis nth_mem)
    have "find (\<lambda>s. song_id s = song_id song) (songs prev) = Some song"
      by (rule find_own_id [OF assms sin])
    then show "streams (?f p) - ?old (?f p)
        = (case p of (i, song) \<Rightarrow> finalWeeklyGain prev song (streamRoll env i))"
      by (simp add: p streamedSong_def Let_def)
  qed
  finally show ?thesis .
qed

text \<open>
  C1. At a monthly settlement the amount credited is the month's activity times the rate
  times the label share, where the month's activity is the sum of the weekly stream gains
  of every released song over the four weeks of the month.

  The code credits the gains of the settling call only. A career with one song of quality
  100 and 2000 fans, at week 1, self-released, every draw 0.5: the four calls of the month
  add 100, 101, 102 and 103 streams, the fourth call settles, and the money grows by
  103 * 0.5, not by (100 + 101 + 102 + 103) * 0.5.
\<close>

theorem settlement_counts_last_week_only:
  "map (\<lambda>envs. streams (hd (songs (advanceTimes indieLabels monthStart envs))))
      [[], [quietEnv], [quietEnv, quietEnv], [quietEnv, quietEnv, quietEnv],
       [quietEnv, quietEnv, quietEnv, quietEnv]]
     = [0, 100, 100 + 101, 100 + 101 + 102, 100 + 101 + 102 + 103]
   \<and> currentWeek (advanceTimes indieLabels monthStart [quietEnv, quietEnv, quietEnv]) = 4
   \<and> currentWeek (advanceTimes indieLabels monthStart [quietEnv, quietEnv, quietEnv, quietEnv]) = 1
   \<and> getStreamRate (fans (player (advanceTimes indieLabels monthStart [quietEnv, quietEnv, quietEnv])))
       = 0.5
   \<and> share indieLabels (advanceTimes indieLabels monthStart [quietEnv, quietEnv, quietEnv]) = 1
   \<and> money (player (advanceTimes indieLabels monthStart [quietEnv, quietEnv, quietEnv])) = 5000
   \<and> money (player (advanceTimes indieLabels monthStart [quietEnv, quietEnv, quietEnv, quietEnv]))
       = 5000 + 103 * 0.5 * 1
   \<and> (103 * 0.5 * 1 :: real) \<noteq> (100 + 101 + 102 + 103) * 0.5 * 1"
proof -
  define s1 where "s1 = advanceTime indieLabels monthStart quietEnv"
  define s2 where "s2 = advanceTime indieLabels s1 quietEnv"
  define s3 where "s3 = advanceTime indieLabels s2 quietEnv"
  define s4 where "s4 = advanceTime indieLabels s3 quietEnv"
  have r: "streamRoll quietEnv 0 = 0.5" by (simp add: quietEnv_def)
  have p1: "currentWeek s1 = 2" "fans (player s1) = 2020" "fame (player s1) = 0"
    "money (player s1) = 5000" "songs s1 = [demoSong\<lparr>streams := 100, revenue := 50\<rparr>]"
    "labelId (player s1) = Some ''indie_self''"
    "currentDate s1 = \<lparr>fullYear = 2025, monthIndex = 0\<rparr>"
    unfolding s1_def
    by (simp_all add: advanceTime_proj monthStart_proj updatedSongs_single [OF monthStart_proj(5)]
        streamedSong_def finalWeeklyGain_def getStreamRate_def demoSong_def r Let_def)
  have p2: "currentWeek s2 = 3" "fans (player s2) = 2040" "fame (player s2) = 0"
    "money (player s2) = 5000" "songs s2 = [demoSong\<lparr>streams := 201, revenue := 201 / 2\<rparr>]"
    "labelId (player s2) = Some ''indie_self''"
    "currentDate s2 = \<lparr>fullYear = 2025, monthIndex = 0\<rparr>"
    unfolding s2_def
    by (simp_all add: advanceTime_proj p1 updatedSongs_single [OF p1(5)]
        streamedSong_def finalWeeklyGain_def getStreamRate_def demoSong_def r Let_def)
  have p3: "currentWeek s3 = 4" "fans (player s3) = 2060" "fame (player s3) = 0"
    "money (player s3) = 5000" "songs s3 = [demoSong\<lparr>streams := 303, revenue := 303 / 2\<rparr>]"
    "labelId (player s3) = Some ''indie_self''"
    "currentDate s3 = \<lparr>fullYear = 2025, monthIndex = 0\<rparr>"
    unfolding s3_def
    by (simp_all add: advanceTime_proj p2 updatedSongs_single [OF p2(5)]
        streamedSong_def finalWeeklyGain_def getStreamRate_def demoSong_def r Let_def)
  have sh: "share indieLabels s3 = 1"
    by (simp add: share_def indieLabels_def p3)
  have p4: "currentWeek s4 = 1" "songs s4 = [demoSong\<lparr>streams := 406, revenue := 203\<rparr>]"
    "money (player s4) = 5000 + 103 / 2"
    unfolding s4_def
    by (simp_all add: advanceTime_proj p3 updatedSongs_single [OF p3(5)] monthlyRoyalties_def
        monthlyActivity_def sh
        streamedSong_def finalWeeklyGain_def getStreamRate_def demoSong_def r Let_def)
  have a: "advanceTimes indieLabels monthStart [] = monthStart"
    "advanceTimes indieLabels monthStart [quietEnv] = s1"
    "advanceTimes indieLabels monthStart [quietEnv, quietEnv] = s2"
    "advanceTimes indieLabels monthStart [quietEnv, quietEnv, quietEnv] = s3"
    "advanceTimes indieLabels monthStart [quietEnv, quietEnv, quietEnv, quietEnv] = s4"
    by (simp_all add: advanceTimes_def s1_def s2_def s3_def s4_def)
  show ?thesis
    by (simp add: a p1 p2 p3 p4 monthStart_proj sh getStreamRate_def demoSong_def)
qed

section \<open>Weeks and months\<close>

text \<open>
  C2 as stated: from a fresh career (week 0), the fourth advance rolls the week from 4 back
  to 1, refreshes the trending topics and grows the fans by 5 percent. It does not: the
  week is 3 before the fourth advance and 4 after it, the topics are unchanged, and the
  fans grow from 103 to 104, by 1 percent.
\<close>

theorem four_advances_no_settlement:
  "currentWeek (advanceTimes [] freshCareer [quietEnv, quietEnv, quietEnv]) \<noteq> 4
   \<and> currentWeek (advanceTimes [] freshCareer [quietEnv, quietEnv, quietEnv, quietEnv]) \<noteq> 1
   \<and> trendingTopics (advanceTimes [] freshCareer [quietEnv, quietEnv, quietEnv, quietEnv])
       = trendingTopics freshCareer
   \<and> trendingTopics freshCareer \<noteq> generateTrendingTopics (trendingReply quietEnv)
   \<and> fans (player (advanceTimes [] freshCareer [quietEnv, quietEnv, quietEnv])) = 103
   \<and> fans (player (advanceTimes [] freshCareer [quietEnv, quietEnv, quietEnv, quietEnv])) = 104
   \<and> 103 + real_of_int \<lfloor>103 * 0.05 :: real\<rfloor> = 108"
  by (simp add: advanceTimes_def advanceTime_proj freshCareer_proj generateTrendingTopics_def
      quietEnv_def)

text \<open>
  C2, amended: from a fresh career (week 0) the week counter goes 1, 2, 3, 4 over the first
  four advances, each a weekly update (1 percent more fans, topics, money and date
  unchanged), and the fifth advance is the first settlement: the week rolls from 4 back to
  1, the date moves to the next month, the trending topics are replaced by the oracle's
  list and the fans grow by 5 percent on that call only.
\<close>

theorem five_advances_one_settlement:
  assumes "handleStartGame name' stageName' genre' = Some s0"
  shows "map currentWeek
           [advanceTimes LABELS s0 [e1], advanceTimes LABELS s0 [e1, e2],
            advanceTimes LABELS s0 [e1, e2, e3], advanceTimes LABELS s0 [e1, e2, e3, e4],
            advanceTimes LABELS s0 [e1, e2, e3, e4, e5]] = [1, 2, 3, 4, 1]
       \<and> map (\<lambda>s. currentWeek s + 1 > 4)
           [s0, advanceTimes LABELS s0 [e1], advanceTimes LABELS s0 [e1, e2],
            advanceTimes LABELS s0 [e1, e2, e3], advanceTimes LABELS s0 [e1, e2, e3, e4]]
           = [False, False, False, False, True]
       \<and> map (\<lambda>s. fans (player s))
           [s0, advanceTimes LABELS s0 [e1], advanceTimes LABELS s0 [e1, e2],
            advanceTimes LABELS s0 [e1, e2, e3], advanceTimes LABELS s0 [e1, e2, e3, e4],
            advanceTimes LABELS s0 [e1, e2, e3, e4, e5]]
           = [100, 100 + real_of_int \<lfloor>100 * 0.01 :: real\<rfloor>,
              101 + real_of_int \<lfloor>101 * 0.01 :: real\<rfloor>,
              102 + real_of_int \<lfloor>102 * 0.01 :: real\<rfloor>,
              103 + real_of_int \<lfloor>103 * 0.01 :: real\<rfloor>,
              104 + real_of_int \<lfloor>104 * 0.05 :: real\<rfloor>]
       \<and> trendingTopics (advanceTimes LABELS s0 [e1, e2, e3, e4]) = trendingTopics s0
       \<and> trendingTopics (advanceTimes LABELS s0 [e1, e2, e3, e4, e5])
           = generateTrendingTopics (trendingReply e5)
       \<and> money (player (advanceTimes LABELS s0 [e1, e2, e3, e4])) = money (player s0)
       \<and> money (player (advanceTimes LABELS s0 [e1, e2, e3, e4, e5])) = money (player s0)
       \<and> currentDate (advanceTimes LABELS s0 [e1, e2, e3, e4]) = currentDate s0
       \<and> currentDate (advanceTimes LABELS s0 [e1, e2, e3, e4, e5])
           = setNextMonth (currentDate s0)"
proof -
  from assms have p0:
    "currentWeek s0 = 0" "fans (player s0) = 100" "songs s0 = []"
    "monthIndex (currentDate s0) = 0"
    by (auto simp: handleStartGame_def split: if_splits)
  show ?thesis
    by (simp add: advanceTimes_def advanceTime_proj p0 updatedSongs_no_songs
        monthlyRoyalties_no_songs)
qed

theorem five_advances_one_settlement_witness:
  "handleStartGame ''Ada'' ''Nova'' POP = Some freshCareer
   \<and> map currentWeek
        [advanceTimes [] freshCareer [quietEnv],
         advanceTimes [] freshCareer [quietEnv, quietEnv],
         advanceTimes [] freshCareer [quietEnv, quietEnv, quietEnv],
         advanceTimes [] freshCareer [quietEnv, quietEnv, quietEnv, quietEnv],
         advanceTimes [] freshCareer [quietEnv, quietEnv, quietEnv, quietEnv, quietEnv]]
       = [1, 2, 3, 4, 1]
   \<and> fans (player (advanceTimes [] freshCareer [quietEnv, quietEnv, quietEnv, quietEnv, quietEnv]))
       = 109
   \<and> trendingTopics (advanceTimes [] freshCareer [quietEnv, quietEnv, quietEnv, quietEnv, quietEnv])
       = [''#MusicVibes'', ''#Stardom'', ''#NewArtist'', ''#ViralBeat'', ''#StudioLife'']"
proof -
  have h: "handleStartGame ''Ada'' ''Nova'' POP = Some freshCareer"
    by (simp add: freshCareer_def handleStartGame_def)
  have t: "generateTrendingTopics (trendingReply quietEnv)
       = [''#MusicVibes'', ''#Stardom'', ''#NewArtist'', ''#ViralBeat'', ''#StudioLife'']"
    by (simp add: generateTrendingTopics_def quietEnv_def)
  show ?thesis
    using h five_advances_one_settlement [OF h, of "[]" quietEnv quietEnv quietEnv quietEnv quietEnv]
    by (simp add: t)
qed

text \<open>
  C10. When the week does not roll over, the Instagram followers become
  floor(Instagram * 1.01), the TikTok followers floor(TikTok * 1.02), and the YouTube,
  Spotify and AppleMusic followers stay as they are.
\<close>

theorem weekly_followers:
  assumes "\<not> currentWeek prev + 1 > 4"
  shows "followers (player (advanceTime LABELS prev env)) Instagram
           = real_of_int \<lfloor>followers (player prev) Instagram * 1.01\<rfloor>
       \<and> followers (player (advanceTime LABELS prev env)) TikTok
           = real_of_int \<lfloor>followers (player prev) TikTok * 1.02\<rfloor>
       \<and> followers (player (advanceTime LABELS prev env)) YouTube = followers (player prev) YouTube
       \<and> followers (player (advanceTime LABELS prev env)) Spotify = followers (player prev) Spotify
       \<and> followers (player (advanceTime LABELS prev env)) AppleMusic
           = followers (player prev) AppleMusic"
  using assms by (simp add: advanceTime_def Let_def)

theorem weekly_followers_witness:
  "\<not> currentWeek freshCareer + 1 > 4
   \<and> followers (player (advanceTime [] freshCareer quietEnv)) Instagram = 50
   \<and> followers (player (advanceTime [] freshCareer quietEnv)) TikTok = 76
   \<and> followers (player (advanceTime [] freshCareer quietEnv)) YouTube = 20
   \<and> followers (player (advanceTime [] freshCareer quietEnv)) Spotify = 10
   \<and> followers (player (advanceTime [] freshCareer quietEnv)) AppleMusic = 5"
proof -
  have h: "\<not> currentWeek freshCareer + 1 > 4"
    by (simp add: freshCareer_proj)
  have f: "followers (player freshCareer) Instagram = 50"
    "followers (player freshCareer) TikTok = 75" "followers (player freshCareer) YouTube = 20"
    "followers (player freshCareer) Spotify = 10" "followers (player freshCareer) AppleMusic = 5"
    by (simp_all add: freshCareer_def handleStartGame_def)
  show ?thesis
    using h weekly_followers [OF h, of "[]" quietEnv] by (simp add: f)
qed

section \<open>Streaming rate\<close>

text \<open>
  C5. The streaming rate is non-decreasing in the fans from 0 on; below 1,000,000 fans it
  is exactly 0.5, and from 1,000,000 fans on it is 0.5 plus (fans - 1,000,000) * 1e-7.
\<close>

theorem getStreamRate_monotone:
  "(0 \<le> a \<and> a \<le> b \<longrightarrow> getStreamRate a \<le> getStreamRate b)
   \<and> (a < 1000000 \<longrightarrow> getStreamRate a = 0.5)
   \<and> (1000000 \<le> a \<longrightarrow> getStreamRate a = 0.5 + (a - 1000000) * 0.0000001)"
  by (simp add: getStreamRate_def Let_def)

theorem getStreamRate_monotone_witness:
  "getStreamRate 500000 \<le> getStreamRate 2000000 \<and> getStreamRate 500000 = 0.5
   \<and> getStreamRate 2000000 = 0.6"
  using getStreamRate_monotone [of 500000 2000000] getStreamRate_monotone [of 2000000 2000000]
  by simp

section \<open>Award season\<close>

lemma hd_sort_key_Max:
  assumes "xs \<noteq> []"
  shows "\<exists>b bs. sort_key (\<lambda>s. - quality s) xs = b # bs \<and> quality b = Max (quality ` set xs)"
proof -
  let ?ys = "sort_key (\<lambda>s. - quality s) xs"
  from assms have "?ys \<noteq> []" by (metis length_sort list.size(3) length_0_conv)
  then obtain b bs where ys: "?ys = b # bs" by (cases ?ys) auto
  have srt: "sorted (map (\<lambda>s. - quality s) ?ys)" by (rule sorted_sort_key)
  have st: "set ?ys = set xs" by simp
  have bin: "b \<in> set xs" using ys st by (metis list.set_intros(1))
  have "\<forall>s \<in> set xs. quality s \<le> quality b"
  proof
    fix s assume "s \<in> set xs"
    then have "s \<in> set (b # bs)" using ys st by metis
    then show "quality s \<le> quality b" using srt unfolding ys by auto
  qed
  then have "Max (quality ` set xs) = quality b"
    using bin by (intro Max_eqI) auto
  then show ?thesis using ys by simp
qed

lemma runAwardsSeason_cases:
  "map category (runAwardsSeason prev r1 r2) =
     (if fans (player prev) > 1000000 \<and> length (songs prev) \<ge> 3
          \<and> Max (quality ` set (songs prev)) > 85 then [''Album of the Year''] else [])
     @ (if fame (player prev) > 5000000 then [''Best Artist''] else [])"
proof -
  let ?A = "fans (player prev) > 1000000 \<and> length (songs prev) \<ge> 3"
  have alb: "map category
      (if ?A then
               (case sort_key (\<lambda>s. - quality s) (songs prev) of
                  [] \<Rightarrow> []
                | bestSong # _ \<Rightarrow>
                    (if quality bestSong > 85 then
                       [\<lparr>award_id = ''aoy-'' @ showInt (fullYear (currentDate prev)) @ ''-'' @ r1,
                         award_year = fullYear (currentDate prev),
                         category = ''Album of the Year'',
                         reason = ''Masterpiece of production and songwriting.''\<rparr>]
                     else []))
             else [])
     = (if ?A \<and> Max (quality ` set (songs prev)) > 85 then [''Album of the Year''] else [])"
  proof (cases ?A)
    case False
    then show ?thesis by (simp only: if_False simp_thms list.map)
  next
    case True
    then have "songs prev \<noteq> []" by auto
    from hd_sort_key_Max [OF this] obtain b bs where
      s: "sort_key (\<lambda>s. - quality s) (songs prev) = b # bs"
      and q: "quality b = Max (quality ` set (songs prev))" by blast
    show ?thesis
      unfolding s list.case q [symmetric] using True
      by (cases "85 < quality b") simp_all
  qed
  show ?thesis
    unfolding runAwardsSeason_def Let_def 
    apply (cases "fame (player prev) > 5000000")
    apply (simp_all only: if_True if_False map_append alb)
     apply (simp_all del: map_eq_conv)
    done
qed

section \<open>The shorter variant of App.tsx\<close>

text \<open>
  The shorter \<open>advanceTime\<close> is the longer one without the follower updates and the
  award headlines: the week counter, the date, the streams, the settlement, the fans, the
  trending topics and the active offers are computed alike, so what is stated above about
  them holds of both. Its award season has the album award only, its mastering is the
  longer one without ghostwriter and featured artist, and its \<open>handleAcceptDeal\<close> changes
  money, charisma and active offers as the longer one does.
\<close>

lemma advanceTime_alt_currentWeek:
  "currentWeek (advanceTime_alt LABELS prev env)
     = (if currentWeek prev + 1 > 4 then 1 else currentWeek prev + 1)"
  by (simp add: advanceTime_alt_def Let_def)

lemma advanceTime_alt_fans:
  "fans (player (advanceTime_alt LABELS prev env))
     = fans (player prev)
       + real_of_int \<lfloor>fans (player prev) * (if currentWeek prev + 1 > 4 then 0.05 else 0.01)\<rfloor>"
  by (simp add: advanceTime_alt_def Let_def)

lemma advanceTime_alt_money:
  "money (player (advanceTime_alt LABELS prev env))
     = (if currentWeek prev + 1 > 4 then
          money (player prev)
          + (if monthIndex (setNextMonth (currentDate prev)) = 0
             then real (length (runAwardsSeason_alt prev (aoyRandom env))) * 100000
             else 0)
          + monthlyRoyalties LABELS prev env
        else money (player prev))"
  by (simp add: advanceTime_alt_def Let_def)

lemma advanceTime_alt_fame:
  "fame (player (advanceTime_alt LABELS prev env))
     = fame (player prev)
       + (if currentWeek prev + 1 > 4 \<and> monthIndex (setNextMonth (currentDate prev)) = 0
          then real (length (runAwardsSeason_alt prev (aoyRandom env))) * 500000
          else 0)"
  by (simp add: advanceTime_alt_def Let_def)

lemma advanceTime_alt_awards:
  "awards (advanceTime_alt LABELS prev env)
     = awards prev @
       (if currentWeek prev + 1 > 4 \<and> monthIndex (setNextMonth (currentDate prev)) = 0
        then runAwardsSeason_alt prev (aoyRandom env) else [])"
  by (simp add: advanceTime_alt_def Let_def)

lemma advanceTime_alt_rest:
  "songs (advanceTime_alt LABELS prev env) = updatedSongs prev env"
  "trendingTopics (advanceTime_alt LABELS prev env)
     = (if currentWeek prev + 1 > 4 then generateTrendingTopics (trendingReply env)
        else trendingTopics prev)"
  "activeOffers (advanceTime_alt LABELS prev env)
     = (if currentWeek prev + 1 > 4 \<and> offerRoll env < 0.6
        then take 3 (generateSponsoredOffer (offerReply env) (offerRandomId env)
                     # activeOffers prev)
        else activeOffers prev)"
  "currentDate (advanceTime_alt LABELS prev env)
     = (if currentWeek prev + 1 > 4 then setNextMonth (currentDate prev) else currentDate prev)"
  "followers (player (advanceTime_alt LABELS prev env)) = followers (player prev)"
  by (simp_all add: advanceTime_alt_def Let_def)

lemma setNextMonth_january:
  "monthIndex d < 12 \<Longrightarrow> monthIndex (setNextMonth d) = 0 \<longleftrightarrow> monthIndex d = 11"
  by (auto simp: setNextMonth_def) presburger

lemma runAwardsSeason_alt_eq:
  "fame (player prev) \<le> 5000000 \<Longrightarrow> runAwardsSeason prev r1 r2 = runAwardsSeason_alt prev r1"
  by (simp add: runAwardsSeason_def runAwardsSeason_alt_def Let_def)

lemma advanceTime_alt_agrees:
  assumes "monthIndex (currentDate prev) < 12" and "fame (player prev) \<le> 5000000"
  shows "advanceTime_alt LABELS prev env
           = (advanceTime LABELS prev env)
               \<lparr>player := (player (advanceTime LABELS prev env))
                  \<lparr>followers := followers (player prev)\<rparr>,
                news := take 15 (news prev)\<rparr>"
proof (cases "currentWeek prev + 1 > 4")
  case False
  then show ?thesis by (simp add: advanceTime_alt_def advanceTime_def Let_def)
next
  case True
  have j: "monthIndex (setNextMonth (currentDate prev)) = 0 \<longleftrightarrow> monthIndex (currentDate prev) = 11"
    by (rule setNextMonth_january [OF assms(1)])
  have a: "runAwardsSeason prev (aoyRandom env) (botyRandom env)
         = runAwardsSeason_alt prev (aoyRandom env)"
    by (rule runAwardsSeason_alt_eq [OF assms(2)])
  show ?thesis using True by (simp add: advanceTime_alt_def advanceTime_def Let_def j a)
qed

lemma runAwardsSeason_alt_cases:
  "map category (runAwardsSeason_alt prev r1) =
     (if fans (player prev) > 1000000 \<and> length (songs prev) \<ge> 3
          \<and> Max (quality ` set (songs prev)) > 85 then [''Album of the Year''] else [])"
proof -
  define prev' where "prev' = prev\<lparr>player := (player prev)\<lparr>fame := 0\<rparr>\<rparr>"
  have p: "fans (player prev') = fans (player prev)" "songs prev' = songs prev"
    "currentDate prev' = currentDate prev" "fame (player prev') = 0"
    by (simp_all add: prev'_def)
  have "runAwardsSeason_alt prev r1 = runAwardsSeason_alt prev' r1"
    by (simp only: runAwardsSeason_alt_def p)
  also have "\<dots> = runAwardsSeason prev' r1 []"
    by (rule runAwardsSeason_alt_eq [symmetric]) (simp add: p)
  finally have "map category (runAwardsSeason_alt prev r1)
      = map category (runAwardsSeason prev' r1 [])" by simp
  then show ?thesis by (simp only: runAwardsSeason_cases p) simp
qed

lemma masteredQuality_alt_eq:
  "masteredQuality_alt s scores r
     = masteredQuality A s \<lparr>draft_title = t, draft_genre = g, feature = [], useGhostwriter = False\<rparr>
         scores r"
  by (simp add: masteredQuality_alt_def masteredQuality_def Let_def)

lemma handleAcceptDeal_alt_effects:
  "money (player (handleAcceptDeal_alt s deal er rid now)) = money (player s) + payout deal"
  "charisma (skills (player (handleAcceptDeal_alt s deal er rid now)))
     = max 0 (charisma (skills (player s)) - charismaPenalty deal)"
  "activeOffers (handleAcceptDeal_alt s deal er rid now)
     = filter (\<lambda>off. offer_id off \<noteq> offer_id deal) (activeOffers s)"
  by (simp_all add: handleAcceptDeal_alt_def Let_def)

section \<open>Award season in both variants\<close>

text \<open>
  C3 as stated, for both variants: a "Best Artist" award is appended exactly when the fame
  exceeds 5,000,000. The shorter \<open>runAwardsSeason\<close> has no such award: on the December
  rollover of a career with 1,500,000 fans, fame 6,000,000 and three songs of quality 50,
  90 and 50 the shorter \<open>advanceTime\<close> appends the album award only and adds 500,000 fame
  once.
\<close>

theorem shorter_variant_no_best_artist:
  "fame (player awardSeasonState) > 5000000
   \<and> currentWeek awardSeasonState + 1 > 4
   \<and> monthIndex (currentDate awardSeasonState) = 11
   \<and> map category (awards (advanceTime_alt [] awardSeasonState quietEnv))
       = [''Album of the Year'']
   \<and> ''Best Artist'' \<notin> set (map category (awards (advanceTime_alt [] awardSeasonState quietEnv)))
   \<and> fame (player (advanceTime_alt [] awardSeasonState quietEnv)) = 6000000 + 500000"
proof -
  have len: "length (songs awardSeasonState) = 3"
    using arg_cong [OF awardSeasonState_proj(7), of length] by simp
  have "quality ` set (songs awardSeasonState) = set (map quality (songs awardSeasonState))"
    by simp
  then have mx: "Max (quality ` set (songs awardSeasonState)) = 90"
    by (simp only: awardSeasonState_proj(7)) simp
  have "monthIndex (currentDate awardSeasonState) = 11"
    by (simp add: awardSeasonState_proj)
  then have jan: "monthIndex (setNextMonth (currentDate awardSeasonState)) = 0"
    by (simp add: setNextMonth_def)
  have c: "map category (runAwardsSeason_alt awardSeasonState (aoyRandom quietEnv))
       = [''Album of the Year'']"
    by (simp add: runAwardsSeason_alt_cases len mx awardSeasonState_proj)
  have "length (map category (runAwardsSeason_alt awardSeasonState (aoyRandom quietEnv))) = 1"
    by (simp only: c) simp
  then have l: "length (runAwardsSeason_alt awardSeasonState (aoyRandom quietEnv)) = 1"
    by simp
  have a: "map category (awards (advanceTime_alt [] awardSeasonState quietEnv))
       = [''Album of the Year'']"
    unfolding advanceTime_alt_awards
    unfolding jan
    by (simp add: c awardSeasonState_proj(1,5) del: map_eq_conv)
  have f: "fame (player (advanceTime_alt [] awardSeasonState quietEnv)) = 6000000 + 500000"
    unfolding advanceTime_alt_fame
    unfolding jan l
    by (simp add: awardSeasonState_proj(1,3))
  have n: "''Best Artist'' \<notin> set (map category (awards (advanceTime_alt [] awardSeasonState quietEnv)))"
    by (simp only: a) simp
  show ?thesis
    using a f n by (simp add: awardSeasonState_proj)
qed

text \<open>
  C3, amended: in both variants the award season gives an "Album of the Year" award
  exactly when the fans exceed 1,000,000, at least 3 songs are released and the best
  released song's quality exceeds 85. The longer variant also gives a "Best Artist" award
  exactly when the fame exceeds 5,000,000; the shorter variant gives no other award. In
  both, on the advance that rolls December over, the awards won are appended to the
  player's awards and each one adds 500,000 fame and 100,000 money (the money next to the
  month's royalties); on every other advance awards and fame stay as they are.
\<close>

theorem awards_season_evaluation:
  "map category (runAwardsSeason prev r1 r2) =
     (if fans (player prev) > 1000000 \<and> length (songs prev) \<ge> 3
          \<and> Max (quality ` set (songs prev)) > 85 then [''Album of the Year''] else [])
     @ (if fame (player prev) > 5000000 then [''Best Artist''] else [])
   \<and> (currentWeek prev + 1 > 4 \<and> monthIndex (currentDate prev) = 11 \<longrightarrow>
        awards (advanceTime LABELS prev env)
          = awards prev @ runAwardsSeason prev (aoyRandom env) (botyRandom env)
        \<and> fame (player (advanceTime LABELS prev env))
          = fame (player prev)
            + real (length (runAwardsSeason prev (aoyRandom env) (botyRandom env))) * 500000
        \<and> money (player (advanceTime LABELS prev env))
          = money (player prev)
            + real (length (runAwardsSeason prev (aoyRandom env) (botyRandom env))) * 100000
            + monthlyRoyalties LABELS prev env)
   \<and> (\<not> (currentWeek prev + 1 > 4 \<and> monthIndex (currentDate prev) = 11) \<longrightarrow>
        awards (advanceTime LABELS prev env) = awards prev
        \<and> fame (player (advanceTime LABELS prev env)) = fame (player prev))
   \<and> map category (runAwardsSeason_alt prev r1) =
     (if fans (player prev) > 1000000 \<and> length (songs prev) \<ge> 3
          \<and> Max (quality ` set (songs prev)) > 85 then [''Album of the Year''] else [])
   \<and> (currentWeek prev + 1 > 4 \<and> monthIndex (currentDate prev) = 11 \<longrightarrow>
        awards (advanceTime_alt LABELS prev env)
          = awards prev @ runAwardsSeason_alt prev (aoyRandom env)
        \<and> fame (player (advanceTime_alt LABELS prev env))
          = fame (player prev)
            + real (length (runAwardsSeason_alt prev (aoyRandom env))) * 500000
        \<and> money (player (advanceTime_alt LABELS prev env))
          = money (player prev)
            + real (length (runAwardsSeason_alt prev (aoyRandom env))) * 100000
            + monthlyRoyalties LABELS prev env)
   \<and> (monthIndex (currentDate prev) < 12
        \<and> \<not> (currentWeek prev + 1 > 4 \<and> monthIndex (currentDate prev) = 11) \<longrightarrow>
        awards (advanceTime_alt LABELS prev env) = awards prev
        \<and> fame (player (advanceTime_alt LABELS prev env)) = fame (player prev))"
proof -
  have long: "map category (runAwardsSeason prev r1 r2) =
     (if fans (player prev) > 1000000 \<and> length (songs prev) \<ge> 3
          \<and> Max (quality ` set (songs prev)) > 85 then [''Album of the Year''] else [])
     @ (if fame (player prev) > 5000000 then [''Best Artist''] else [])"
    by (rule runAwardsSeason_cases)
  have short: "map category (runAwardsSeason_alt prev r1) =
     (if fans (player prev) > 1000000 \<and> length (songs prev) \<ge> 3
          \<and> Max (quality ` set (songs prev)) > 85 then [''Album of the Year''] else [])"
    by (rule runAwardsSeason_alt_cases)
  have dec: "monthIndex (currentDate prev) = 11
      \<Longrightarrow> monthIndex (setNextMonth (currentDate prev)) = 0"
    by (simp add: setNextMonth_def)
  have other: "monthIndex (currentDate prev) < 12 \<Longrightarrow> monthIndex (currentDate prev) \<noteq> 11
      \<Longrightarrow> monthIndex (setNextMonth (currentDate prev)) \<noteq> 0"
    by (simp add: setNextMonth_january)
  have adv: "(currentWeek prev + 1 > 4 \<and> monthIndex (currentDate prev) = 11 \<longrightarrow>
        awards (advanceTime LABELS prev env)
          = awards prev @ runAwardsSeason prev (aoyRandom env) (botyRandom env)
        \<and> fame (player (advanceTime LABELS prev env))
          = fame (player prev)
            + real (length (runAwardsSeason prev (aoyRandom env) (botyRandom env))) * 500000
        \<and> money (player (advanceTime LABELS prev env))
          = money (player prev)
            + real (length (runAwardsSeason prev (aoyRandom env) (botyRandom env))) * 100000
            + monthlyRoyalties LABELS prev env)
   \<and> (\<not> (currentWeek prev + 1 > 4 \<and> monthIndex (currentDate prev) = 11) \<longrightarrow>
        awards (advanceTime LABELS prev env) = awards prev
        \<and> fame (player (advanceTime LABELS prev env)) = fame (player prev))"
    by (simp add: advanceTime_proj)
  have alt1: "currentWeek prev + 1 > 4 \<and> monthIndex (currentDate prev) = 11 \<longrightarrow>
        awards (advanceTime_alt LABELS prev env)
          = awards prev @ runAwardsSeason_alt prev (aoyRandom env)
        \<and> fame (player (advanceTime_alt LABELS prev env))
          = fame (player prev)
            + real (length (runAwardsSeason_alt prev (aoyRandom env))) * 500000
        \<and> money (player (advanceTime_alt LABELS prev env))
          = money (player prev)
            + real (length (runAwardsSeason_alt prev (aoyRandom env))) * 100000
            + monthlyRoyalties LABELS prev env"
    by (simp add: advanceTime_alt_awards advanceTime_alt_fame advanceTime_alt_money dec)
  have alt2: "monthIndex (currentDate prev) < 12
        \<and> \<not> (currentWeek prev + 1 > 4 \<and> monthIndex (currentDate prev) = 11) \<longrightarrow>
        awards (advanceTime_alt LABELS prev env) = awards prev
        \<and> fame (player (advanceTime_alt LABELS prev env)) = fame (player prev)"
    using other by (auto simp add: advanceTime_alt_awards advanceTime_alt_fame)
  from long adv short alt1 alt2 show ?thesis by (intro conjI) (elim conjE, assumption)+
qed

theorem awards_season_evaluation_witness:
  "currentWeek awardSeasonState + 1 > 4 \<and> monthIndex (currentDate awardSeasonState) = 11
   \<and> map category (runAwardsSeason awardSeasonState ''a1'' ''b1'')
       = [''Album of the Year'', ''Best Artist'']
   \<and> map category (awards (advanceTime [] awardSeasonState quietEnv))
       = [''Album of the Year'', ''Best Artist'']
   \<and> fame (player (advanceTime [] awardSeasonState quietEnv)) = 6000000 + 2 * 500000
   \<and> money (player (advanceTime [] awardSeasonState quietEnv))
       = 5000 + 2 * 100000 + monthlyRoyalties [] awardSeasonState quietEnv
   \<and> map category (runAwardsSeason_alt awardSeasonState ''a1'') = [''Album of the Year'']
   \<and> map category (awards (advanceTime_alt [] awardSeasonState quietEnv))
       = [''Album of the Year'']
   \<and> fame (player (advanceTime_alt [] awardSeasonState quietEnv)) = 6000000 + 500000
   \<and> money (player (advanceTime_alt [] awardSeasonState quietEnv))
       = 5000 + 100000 + monthlyRoyalties [] awardSeasonState quietEnv
   \<and> monthIndex (currentDate freshCareer) < 12
   \<and> \<not> (currentWeek freshCareer + 1 > 4 \<and> monthIndex (currentDate freshCareer) = 11)
   \<and> awards (advanceTime [] freshCareer quietEnv) = []
   \<and> fame (player (advanceTime [] freshCareer quietEnv)) = 0
   \<and> awards (advanceTime_alt [] freshCareer quietEnv) = []
   \<and> fame (player (advanceTime_alt [] freshCareer quietEnv)) = 0"
proof -
  have h: "currentWeek awardSeasonState + 1 > 4 \<and> monthIndex (currentDate awardSeasonState) = 11"
    by (simp add: awardSeasonState_proj)
  have g: "\<not> (currentWeek freshCareer + 1 > 4 \<and> monthIndex (currentDate freshCareer) = 11)"
    by (simp add: freshCareer_proj)
  have g12: "monthIndex (currentDate freshCareer) < 12"
    by (simp add: freshCareer_proj)
  have q: "aoyRandom quietEnv = ''a1''" "botyRandom quietEnv = ''b1''"
    by (simp_all add: quietEnv_def)
  have len: "length (songs awardSeasonState) = 3"
    using arg_cong [OF awardSeasonState_proj(7), of length] by simp
  have "quality ` set (songs awardSeasonState) = set (map quality (songs awardSeasonState))"
    by simp
  then have mx: "Max (quality ` set (songs awardSeasonState)) = 90"
    by (simp only: awardSeasonState_proj(7)) simp
  note at_award = awards_season_evaluation [of awardSeasonState "''a1''" "''b1''" "[]" quietEnv]
  note at_fresh = awards_season_evaluation [of freshCareer "''a1''" "''b1''" "[]" quietEnv]
  have c: "map category (runAwardsSeason awardSeasonState ''a1'' ''b1'')
       = [''Album of the Year'', ''Best Artist'']"
    and c': "map category (runAwardsSeason_alt awardSeasonState ''a1'') = [''Album of the Year'']"
    using at_award by (simp_all add: len mx awardSeasonState_proj)
  have "length (map category (runAwardsSeason awardSeasonState ''a1'' ''b1'')) = 2"
    by (simp only: c) simp
  then have l: "length (runAwardsSeason awardSeasonState ''a1'' ''b1'') = 2"
    by simp
  have "length (map category (runAwardsSeason_alt awardSeasonState ''a1'')) = 1"
    by (simp only: c') simp
  then have l': "length (runAwardsSeason_alt awardSeasonState ''a1'') = 1"
    by simp
  have f0: "awards freshCareer = []" "fame (player freshCareer) = 0"
    by (simp_all add: freshCareer_proj)
  have e1: "awards (advanceTime [] awardSeasonState quietEnv)
          = awards awardSeasonState @ runAwardsSeason awardSeasonState ''a1'' ''b1''"
    and e2: "fame (player (advanceTime [] awardSeasonState quietEnv))
          = fame (player awardSeasonState)
            + real (length (runAwardsSeason awardSeasonState ''a1'' ''b1'')) * 500000"
    and e3: "money (player (advanceTime [] awardSeasonState quietEnv))
          = money (player awardSeasonState)
            + real (length (runAwardsSeason awardSeasonState ''a1'' ''b1'')) * 100000
            + monthlyRoyalties [] awardSeasonState quietEnv"
    and a1: "awards (advanceTime_alt [] awardSeasonState quietEnv)
          = awards awardSeasonState @ runAwardsSeason_alt awardSeasonState ''a1''"
    and a2: "fame (player (advanceTime_alt [] awardSeasonState quietEnv))
          = fame (player awardSeasonState)
            + real (length (runAwardsSeason_alt awardSeasonState ''a1'')) * 500000"
    and a3: "money (player (advanceTime_alt [] awardSeasonState quietEnv))
          = money (player awardSeasonState)
            + real (length (runAwardsSeason_alt awardSeasonState ''a1'')) * 100000
            + monthlyRoyalties [] awardSeasonState quietEnv"
    using h at_award unfolding q by blast+
  have e4: "awards (advanceTime [] freshCareer quietEnv) = awards freshCareer"
    and e5: "fame (player (advanceTime [] freshCareer quietEnv)) = fame (player freshCareer)"
    and a4: "awards (advanceTime_alt [] freshCareer quietEnv) = awards freshCareer"
    and a5: "fame (player (advanceTime_alt [] freshCareer quietEnv)) = fame (player freshCareer)"
    using g g12 at_fresh by blast+
  show ?thesis
    unfolding e1 e2 e3 e4 e5 a1 a2 a3 a4 a5 l l' f0 awardSeasonState_proj map_append c c'
    using g g12 by simp
qed

section \<open>Mastering\<close>

lemma foldl_add_nonneg:
  "0 \<le> (a::real) \<Longrightarrow> \<forall>x \<in> set xs. 0 \<le> x \<Longrightarrow> 0 \<le> foldl (\<lambda>a b. a + b) a xs"
  by (induction xs arbitrary: a) auto

lemma handleTap_nonneg: "0 \<le> handleTap p"
  by (simp add: handleTap_def Let_def)

lemma masteredQuality_nonneg_skills:
  assumes "taps \<noteq> []"
    and "0 \<le> songwriting (skills (player gameState))"
    and "0 \<le> production (skills (player gameState))"
    and "0 \<le> vocals (skills (player gameState))"
    and "\<forall>a \<in> set REAL_ARTISTS_DATA. 0 \<le> artist_fame a"
    and "0 \<le> random"
  shows "\<exists>q. masteredQuality REAL_ARTISTS_DATA gameState draftForm (map handleTap taps) random
               = Some q \<and> 0 \<le> q \<and> q \<le> 100"
proof -
  let ?scores = "map handleTap taps"
  define pb where "pb = foldl (\<lambda>a b. a + b) 0 ?scores / real (length ?scores)"
  define b0 where "b0 = (songwriting (skills (player gameState))
                            + production (skills (player gameState))
                            + vocals (skills (player gameState))) / 3"
  define b1 where "b1 = (if useGhostwriter draftForm then b0 + 15 else b0)"
  define b2 where "b2 = (if feature draftForm \<noteq> [] then
                  (case find (\<lambda>a. artist_name a = feature draftForm) REAL_ARTISTS_DATA of
                     Some artist \<Rightarrow> b1 + min 20 (artist_fame artist / 500000)
                   | None \<Rightarrow> b1)
                else b1)"
  have "0 \<le> foldl (\<lambda>a b. a + b) 0 ?scores"
    by (rule foldl_add_nonneg) (auto simp: handleTap_nonneg)
  then have pb: "0 \<le> pb" by (simp add: pb_def)
  have b0: "0 \<le> b0" using assms(2-4) by (simp add: b0_def)
  then have b1: "0 \<le> b1" by (simp add: b1_def)
  have b2: "0 \<le> b2"
  proof (cases "find (\<lambda>a. artist_name a = feature draftForm) REAL_ARTISTS_DATA")
    case None
    then show ?thesis using b1 by (simp add: b2_def)
  next
    case (Some artist)
    then have "artist \<in> set REAL_ARTISTS_DATA" by (auto simp: find_Some_iff)
    then have "0 \<le> artist_fame artist" using assms(5) by blast
    then have "0 \<le> min 20 (artist_fame artist / 500000)" by simp
    then show ?thesis using b1 Some by (simp add: b2_def)
  qed
  have "0 \<le> b2 * 0.7 + pb * 0.3 + random * 5" using b2 pb assms(6) by simp
  then have fl: "0 \<le> real_of_int \<lfloor>b2 * 0.7 + pb * 0.3 + random * 5\<rfloor>" by simp
  have eq: "masteredQuality REAL_ARTISTS_DATA gameState draftForm ?scores random
          = Some (min 100 (real_of_int \<lfloor>b2 * 0.7 + pb * 0.3 + random * 5\<rfloor>))"
    unfolding masteredQuality_def Let_def pb_def b0_def b1_def b2_def
    using assms(1) by simp
  show ?thesis unfolding eq using fl by simp
qed

lemma masteredQuality_le_100:
  "masteredQuality A s d scores r = Some q \<Longrightarrow> q \<le> 100"
  unfolding masteredQuality_def Let_def
  by (cases "scores = []") auto

text \<open>
  C4. The quality of a mastered song lies in [0, 100], however large the skills, the
  ghostwriter and featured-artist bonuses and the mini-game performance are: in every
  reachable career, for a finished session (at least one tap, each scored by the
  mini-game), a draw of at least 0 and a catalogue of artists of non-negative fame,
  the mastering computes a quality between 0 and 100 and stores a song of that quality
  at the head of the vault.
\<close>

theorem masteredQuality_range:
  assumes "reachable LABELS REAL_ARTISTS_DATA gameState"
    and "taps \<noteq> []"
    and "\<forall>a \<in> set REAL_ARTISTS_DATA. 0 \<le> artist_fame a"
    and "0 \<le> random"
  shows "\<exists>q. masteredQuality REAL_ARTISTS_DATA gameState draftForm (map handleTap taps) random
               = Some q
            \<and> 0 \<le> q \<and> q \<le> 100
            \<and> (draft_title draftForm \<noteq> [] \<longrightarrow>
                 (\<exists>s'. saveToVault REAL_ARTISTS_DATA gameState draftForm (map handleTap taps)
                          random randomId activeLyrics = Some s'
                       \<and> map quality (unreleasedSongs s')
                           = q # map quality (unreleasedSongs gameState)))"
proof -
  from assms(1) have "studioSkills gameState" by (rule reachable_studioSkills)
  then have sk: "0 \<le> songwriting (skills (player gameState))"
    "0 \<le> production (skills (player gameState))" "0 \<le> vocals (skills (player gameState))"
    by (simp_all add: studioSkills_def)
  from masteredQuality_nonneg_skills [OF assms(2) sk assms(3,4), of draftForm]
  obtain q where q: "masteredQuality REAL_ARTISTS_DATA gameState draftForm (map handleTap taps)
      random = Some q" "0 \<le> q" "q \<le> 100"
    by (elim exE conjE)
  have "draft_title draftForm \<noteq> [] \<longrightarrow>
          (\<exists>s'. saveToVault REAL_ARTISTS_DATA gameState draftForm (map handleTap taps)
                   random randomId activeLyrics = Some s'
                \<and> map quality (unreleasedSongs s') = q # map quality (unreleasedSongs gameState))"
    unfolding saveToVault_def q(1) option.case Let_def by simp
  with q show ?thesis by (intro exI [of _ q] conjI)
qed

theorem masteredQuality_range_witness:
  "reachable [] starArtists freshCareer
   \<and> [50, 40, 60, 50, 50] \<noteq> ([] :: real list)
   \<and> (0::real) \<le> 0.5
   \<and> masteredQuality starArtists freshCareer starDraft (map handleTap [50, 40, 60, 50, 50]) 0.5
       = Some 61
   \<and> (0::real) \<le> 61 \<and> (61::real) \<le> 100
   \<and> draft_title starDraft \<noteq> []
   \<and> map quality (unreleasedSongs (the (saveToVault starArtists freshCareer starDraft
         (map handleTap [50, 40, 60, 50, 50]) 0.5 ''s9'' ''la la''))) = [61]"
proof -
  have r: "reachable [] starArtists freshCareer" by (rule reachable_freshCareer)
  have t: "[50, 40, 60, 50, 50] \<noteq> ([] :: real list)" by simp
  have a: "\<forall>a \<in> set starArtists. 0 \<le> artist_fame a" by (simp add: starArtists_def)
  have z: "(0::real) \<le> 0.5" by simp
  have sk: "skills (player freshCareer)
      = \<lparr>songwriting = 20, vocals = 30, production = 10, charisma = 40\<rparr>"
    by (simp add: freshCareer_def handleStartGame_def)
  have u: "unreleasedSongs freshCareer = []"
    by (simp add: freshCareer_def handleStartGame_def)
  have taps: "map handleTap [50, 40, 60, 50, 50] = [100, 80, 80, 100, 100]"
    by (simp add: handleTap_def)
  have fnd: "find (\<lambda>a. artist_name a = feature starDraft) starArtists
      = Some \<lparr>artist_name = ''Star'', artist_fame = 5000000, artist_cost = 10000\<rparr>"
    by (simp add: starArtists_def starDraft_def)
  have d: "draft_title starDraft \<noteq> []" "useGhostwriter starDraft" "feature starDraft \<noteq> []"
    by (simp_all add: starDraft_def)
  have m: "masteredQuality starArtists freshCareer starDraft (map handleTap [50, 40, 60, 50, 50]) 0.5
       = Some 61"
    unfolding masteredQuality_def Let_def taps fnd option.case sk
    using d by simp
  from masteredQuality_range [OF r t a z, of starDraft "''s9''" "''la la''"]
  obtain q where q: "masteredQuality starArtists freshCareer starDraft
        (map handleTap [50, 40, 60, 50, 50]) 0.5 = Some q"
    and v: "draft_title starDraft \<noteq> [] \<longrightarrow>
          (\<exists>s'. saveToVault starArtists freshCareer starDraft (map handleTap [50, 40, 60, 50, 50])
                   0.5 ''s9'' ''la la'' = Some s'
                \<and> map quality (unreleasedSongs s') = q # map quality (unreleasedSongs freshCareer))"
    by (elim exE conjE)
  from q m have q61: "q = 61" by simp
  from v d(1) obtain s' where s': "saveToVault starArtists freshCareer starDraft
        (map handleTap [50, 40, 60, 50, 50]) 0.5 ''s9'' ''la la'' = Some s'"
      "map quality (unreleasedSongs s') = q # map quality (unreleasedSongs freshCareer)"
    by (elim impE exE conjE)
  have "map quality (unreleasedSongs (the (saveToVault starArtists freshCareer starDraft
         (map handleTap [50, 40, 60, 50, 50]) 0.5 ''s9'' ''la la''))) = [61]"
    unfolding s'(1) option.sel s'(2) q61 u by simp
  with r m d(1) show ?thesis by simp
qed

section \<open>Sponsored offers\<close>

text \<open>
  C6. In every reachable state the active offers are at most 3; when a month rollover
  adds an offer to a list of 3, the new offer comes first and the last, oldest one is
  dropped.
\<close>

theorem activeOffers_bounded:
  "(reachable LABELS REAL_ARTISTS_DATA s \<longrightarrow> length (activeOffers s) \<le> 3)
   \<and> (currentWeek s + 1 > 4 \<and> offerRoll env < 0.6 \<and> length (activeOffers s) = 3 \<longrightarrow>
        activeOffers (advanceTime LABELS s env)
          = generateSponsoredOffer (offerReply env) (offerRandomId env) # butlast (activeOffers s))"
  by (simp add: reachable_activeOffers advanceTime_activeOffers butlast_conv_take)

theorem activeOffers_bounded_witness:
  "reachable [] [] threeOffers \<and> length (activeOffers threeOffers) \<le> 3
   \<and> currentWeek threeOffers + 1 > 4 \<and> offerRoll (sponsorEnv ''o4'') < 0.6
   \<and> length (activeOffers threeOffers) = 3
   \<and> map offer_id (activeOffers threeOffers) = [''o3'', ''o2'', ''o1'']
   \<and> map offer_id (activeOffers (advanceTime [] threeOffers (sponsorEnv ''o4'')))
       = [''o4'', ''o3'', ''o2'']"
proof -
  have r: "reachable [] [] threeOffers"
    unfolding threeOffers_def by (rule reachable_advanceTimes [OF reachable_freshCareer])
  have "length (map offer_id (activeOffers threeOffers)) = 3"
    by (simp only: threeOffers_proj) simp
  then have l: "length (activeOffers threeOffers) = 3" by simp
  have h: "currentWeek threeOffers + 1 > 4 \<and> offerRoll (sponsorEnv ''o4'') < 0.6
       \<and> length (activeOffers threeOffers) = 3"
    by (simp add: threeOffers_proj sponsorEnv_proj l)
  from activeOffers_bounded [of "[]" "[]" threeOffers "sponsorEnv ''o4''"] r h
  have b: "length (activeOffers threeOffers) \<le> 3"
    and e: "activeOffers (advanceTime [] threeOffers (sponsorEnv ''o4''))
          = generateSponsoredOffer (offerReply (sponsorEnv ''o4'')) (offerRandomId (sponsorEnv ''o4''))
            # butlast (activeOffers threeOffers)"
    by blast+
  have "map offer_id (butlast (activeOffers threeOffers))
          = butlast (map offer_id (activeOffers threeOffers))" by (simp add: map_butlast)
  then have m: "map offer_id (butlast (activeOffers threeOffers)) = [''o3'', ''o2'']"
    by (simp only: threeOffers_proj) simp
  show ?thesis
    using r b h by (simp add: e m sponsorEnv_proj threeOffers_proj del: map_eq_conv)
qed

text \<open>
  Accepting an offer adds its payout to the money, lowers the charisma by its penalty but
  not below 0, and removes every active offer with the accepted offer's identifier: one
  offer when the identifiers are distinct.
\<close>

lemma handleAcceptDeal_player:
  "money (player (handleAcceptDeal s deal ap rid now)) = money (player s) + payout deal"
  "charisma (skills (player (handleAcceptDeal s deal ap rid now)))
     = max 0 (charisma (skills (player s)) - charismaPenalty deal)"
  by (simp_all add: handleAcceptDeal_def Let_def)

lemma filter_distinct_id_length:
  "distinct (map offer_id offers) \<Longrightarrow> deal \<in> set offers
     \<Longrightarrow> length (filter (\<lambda>off. offer_id off \<noteq> offer_id deal) offers) + 1 = length offers"
proof (induction offers)
  case Nil
  then show ?case by simp
next
  case (Cons a offers)
  show ?case
  proof (cases "offer_id a = offer_id deal")
    case True
    have "offer_id a \<notin> set (map offer_id offers)" using Cons.prems(1) by simp
    then have "\<forall>off \<in> set offers. offer_id off \<noteq> offer_id a"
      by (metis image_eqI set_map)
    with True have "\<forall>off \<in> set offers. offer_id off \<noteq> offer_id deal" by simp
    then have "filter (\<lambda>off. offer_id off \<noteq> offer_id deal) offers = offers"
      by (simp add: filter_id_conv)
    with True show ?thesis by simp
  next
    case False
    with Cons.prems have "deal \<in> set offers" by auto
    with Cons False show ?thesis by simp
  qed
qed

lemma handleAcceptDeal_distinct_ids:
  assumes "distinct (map offer_id (activeOffers s))" "deal \<in> set (activeOffers s)"
  shows "length (activeOffers (handleAcceptDeal s deal ap rid now)) + 1
           = length (activeOffers s)"
  using filter_distinct_id_length [OF assms] by (simp add: handlers_activeOffers)

text \<open>
  C7. Accepting an active offer adds exactly its payout to the money, lowers the charisma
  by its penalty but not below 0, and removes the offer, so that the list is one shorter.

  The oracle's fallback offer always has the identifier "fallback-offer". After two month
  rollovers answered by the fallback the list holds two such offers; accepting one pays
  once and removes both.
\<close>

theorem accept_fallback_removes_both:
  "reachable [] [] twoFallbacks
   \<and> activeOffers twoFallbacks = [fallbackOffer, fallbackOffer]
   \<and> fallbackOffer \<in> set (activeOffers twoFallbacks)
   \<and> activeOffers (handleAcceptDeal twoFallbacks fallbackOffer Instagram ''p1'' 0) = []
   \<and> money (player (handleAcceptDeal twoFallbacks fallbackOffer Instagram ''p1'' 0))
       = money (player twoFallbacks) + 5000
   \<and> length (activeOffers twoFallbacks)
       - length (activeOffers (handleAcceptDeal twoFallbacks fallbackOffer Instagram ''p1'' 0))
       = 2"
proof -
  have r: "reachable [] [] twoFallbacks"
    unfolding twoFallbacks_def by (rule reachable_advanceTimes [OF reachable_freshCareer])
  show ?thesis
    using r by (simp add: handlers_activeOffers handleAcceptDeal_player twoFallbacks_proj
        fallbackOffer_def)
qed

section \<open>Handlers that cost money\<close>



text \<open>
  C9 as stated: a release on YouTube quadruples the fame gain of a release elsewhere. For
  a song of quality 100 the fame gain is 200,000 on YouTube and 100,000 on Spotify.
\<close>

theorem youtube_fame_not_quadrupled:
  "\<not> money (player fundedCareer) < 15000
   \<and> fame (player (stateAfter fundedCareer
         (distributeSong fundedCareer demoSong YouTube None None None ''p1'' 0)))
       - fame (player fundedCareer) = 200000
   \<and> fame (player (stateAfter fundedCareer
         (distributeSong fundedCareer demoSong Spotify None None None ''p1'' 0)))
       - fame (player fundedCareer) = 100000
   \<and> (200000::real) \<noteq> 4 * 100000"
  by (simp add: distributeSong_def stateAfter_def Let_def fundedCareer_def freshCareer_proj
      demoSong_def)

text \<open>
  C9, amended: a release on YouTube adds twice the oracle's estimated fan gain and a
  release elsewhere adds the estimate once; the fame gain is the song's quality times
  2000 on YouTube and times 1000 elsewhere, so YouTube doubles both, whether the estimate
  is the oracle's or the fallback formula.
\<close>

theorem youtube_doubles_fans_and_fame:
  assumes "\<not> money (player s) < 15000" and "platform \<noteq> YouTube"
  shows "fans (player (stateAfter s
             (distributeSong s song YouTube thumbnailReply impactReply newsReply randomId now)))
           - fans (player s)
         = 2 * fanGain (calculateSongImpact impactReply (quality song) (fans (player s)))
       \<and> fans (player (stateAfter s
             (distributeSong s song platform thumbnailReply impactReply newsReply randomId now)))
           - fans (player s)
         = fanGain (calculateSongImpact impactReply (quality song) (fans (player s)))
       \<and> fame (player (stateAfter s
             (distributeSong s song YouTube thumbnailReply impactReply newsReply randomId now)))
           - fame (player s)
         = quality song * 2000
       \<and> fame (player (stateAfter s
             (distributeSong s song platform thumbnailReply impactReply newsReply randomId now)))
           - fame (player s)
         = quality song * 1000"
  using assms by (simp add: distributeSong_def stateAfter_def Let_def)

theorem youtube_doubles_fans_and_fame_witness:
  "\<not> money (player fundedCareer) < 15000 \<and> Spotify \<noteq> YouTube
   \<and> fanGain (calculateSongImpact None (quality demoSong) (fans (player fundedCareer))) = 520
   \<and> fans (player (stateAfter fundedCareer
         (distributeSong fundedCareer demoSong YouTube None None None ''p1'' 0))) = 100 + 2 * 520
   \<and> fans (player (stateAfter fundedCareer
         (distributeSong fundedCareer demoSong Spotify None None None ''p1'' 0))) = 100 + 520
   \<and> fame (player (stateAfter fundedCareer
         (distributeSong fundedCareer demoSong YouTube None None None ''p1'' 0))) = 200000
   \<and> fame (player (stateAfter fundedCareer
         (distributeSong fundedCareer demoSong Spotify None None None ''p1'' 0))) = 100000"
proof -
  have h: "\<not> money (player fundedCareer) < 15000" "Spotify \<noteq> YouTube"
    by (simp_all add: fundedCareer_def)
  have p: "fans (player fundedCareer) = 100" "fame (player fundedCareer) = 0"
    "quality demoSong = 100"
    by (simp_all add: fundedCareer_def freshCareer_proj demoSong_def)
  have g: "fanGain (calculateSongImpact None 100 100) = 520"
    by (simp add: calculateSongImpact_def)
  show ?thesis
    using h youtube_doubles_fans_and_fame [OF h, of demoSong None None None "''p1''" 0]
    by (simp add: g p)
qed

end
